theory Spec2Isabelle
  imports Complex_Main
begin

section \<open>The pixel resolver (polyfill.ts)\<close>

text \<open>
  JavaScript numbers are modelled as reals; the one place where the code tests for
  \<open>NaN\<close> (an anchor side that is a number) has a constructor of its own. Rounding of
  IEEE doubles is outside the model. Elements of the document are identified by a
  natural number, and everything the code reads from the browser (computed styles, box
  sizes, the floating-ui platform) is a field of the record \<open>env\<close>.
\<close>

type_synonym el = nat

record rect =
  rect_x :: real
  rect_y :: real
  rect_width :: real
  rect_height :: real

datatype axis = AxisX | AxisY

datatype dimension = Width | Height

text \<open>\<open>AnchorSide = AnchorSideKeyword | number\<close>: a keyword is kept as its string.\<close>

datatype anchor_side = SideKeyword string | SideNumber real | SideNaN

text \<open>
  \<open>isInsetProp\<close> and \<open>isSizingProp\<close> are imported from parse.js, whose current version
  is not among the sources: they are parameters here. \<open>numberToString\<close> is the
  conversion of a number inside a template literal.
\<close>

record env =
  isInsetProp :: "string \<Rightarrow> bool"
  isSizingProp :: "string \<Rightarrow> bool"
  computedStyle :: "el \<Rightarrow> string \<Rightarrow> string"
  platform_isRTL :: "el \<Rightarrow> bool"
  platform_getOffsetParent :: "el \<Rightarrow> el option"
  platform_getDocumentElement :: "el \<Rightarrow> el option"
  window_documentElement :: "el option"
  clientHeight :: "el \<Rightarrow> real"
  clientWidth :: "el \<Rightarrow> real"
  offsetHeight :: "el \<Rightarrow> real"
  offsetWidth :: "el \<Rightarrow> real"
  numberToString :: "real \<Rightarrow> string"

record GetPixelValueOpts =
  targetEl :: "el option"
  targetProperty :: string
  anchorRect :: "rect option"
  anchorSide :: "anchor_side option"
  anchorSize :: "string option"
  fallback :: string

text \<open>
  \<open>getOffsetParent\<close>: \<open>platform_getOffsetParent\<close> is \<open>Some\<close> exactly when the platform's
  answer passes \<open>platform.isElement\<close>; otherwise the document element of the element,
  or else that of the window.
\<close>

definition getOffsetParent :: "env \<Rightarrow> el \<Rightarrow> el option" where
  "getOffsetParent e t =
     (case platform_getOffsetParent e t of
        Some p \<Rightarrow> Some p
      | None \<Rightarrow>
          (case platform_getDocumentElement e t of
             Some d \<Rightarrow> Some d
           | None \<Rightarrow> window_documentElement e))"

definition resolveLogicalSideKeyword :: "anchor_side \<Rightarrow> bool \<Rightarrow> real option" where
  "resolveLogicalSideKeyword side rtl =
     (let percentage =
        (case side of
           SideKeyword k \<Rightarrow>
             if k = ''start'' \<or> k = ''self-start'' then Some 0
             else if k = ''end'' \<or> k = ''self-end'' then Some 100
             else None
         | SideNumber n \<Rightarrow> Some n
         | SideNaN \<Rightarrow> None)
      in case percentage of
           Some p \<Rightarrow> Some (if rtl then 100 - p else p)
         | None \<Rightarrow> None)"

definition resolveLogicalSizeKeyword :: "string \<Rightarrow> bool \<Rightarrow> dimension option" where
  "resolveLogicalSizeKeyword sz vertical =
     (if sz = ''block'' \<or> sz = ''self-block''
        then Some (if vertical then Width else Height)
      else if sz = ''inline'' \<or> sz = ''self-inline''
        then Some (if vertical then Height else Width)
      else None)"

definition getAxis :: "string \<Rightarrow> axis option" where
  "getAxis position =
     (if position = ''top'' \<or> position = ''bottom'' then Some AxisY
      else if position = ''left'' \<or> position = ''right'' then Some AxisX
      else None)"

fun getAxisProperty :: "axis option \<Rightarrow> dimension option" where
  "getAxisProperty (Some AxisX) = Some Width"
| "getAxisProperty (Some AxisY) = Some Height"
| "getAxisProperty None = None"

text \<open>\<open>anchorRect[axis]\<close> and \<open>anchorRect[dir]\<close>.\<close>

fun rect_axis :: "rect \<Rightarrow> axis \<Rightarrow> real" where
  "rect_axis r AxisX = rect_x r"
| "rect_axis r AxisY = rect_y r"

fun rect_dim :: "rect \<Rightarrow> dimension \<Rightarrow> real" where
  "rect_dim r Width = rect_width r"
| "rect_dim r Height = rect_height r"

text \<open>White space as \<open>String.prototype.trim\<close> and \<open>parseInt\<close> skip it (ASCII part).\<close>

definition isSpace :: "char \<Rightarrow> bool" where
  "isSpace c = (c \<in> set [CHR '' '', CHR 0x09, CHR 0x0A, CHR 0x0B, CHR 0x0C, CHR 0x0D])"

definition trim :: "string \<Rightarrow> string" where
  "trim s = rev (dropWhile isSpace (rev (dropWhile isSpace s)))"

definition getCSSPropertyValue :: "env \<Rightarrow> el \<Rightarrow> string \<Rightarrow> string" where
  "getCSSPropertyValue e t prop = trim (computedStyle e t prop)"

definition isInline :: "env \<Rightarrow> el \<Rightarrow> bool" where
  "isInline e t = (getCSSPropertyValue e t ''display'' = ''inline'')"

definition isDigit :: "char \<Rightarrow> bool" where
  "isDigit c = (c \<in> set ''0123456789'')"

definition digitVal :: "char \<Rightarrow> int" where
  "digitVal c = int (of_char c) - 48"

text \<open>
  \<open>parseInt(s, 10)\<close>: leading white space, an optional sign, then the longest run of
  decimal digits; \<open>None\<close> stands for \<open>NaN\<close> (no digit).
\<close>

definition parseInt :: "string \<Rightarrow> int option" where
  "parseInt s =
     (let s1 = dropWhile isSpace s;
          neg = (s1 \<noteq> [] \<and> hd s1 = CHR ''-'');
          s2 = (if s1 \<noteq> [] \<and> (hd s1 = CHR ''-'' \<or> hd s1 = CHR ''+'') then tl s1 else s1);
          ds = takeWhile isDigit s2
      in if ds = [] then None
         else let n = foldl (\<lambda>a c. 10 * a + digitVal c) 0 ds
              in Some (if neg then - n else n))"

text \<open>
  \<open>getBorders\<close>: the sum of the two parsed border widths starting from 0; a \<open>NaN\<close>
  sum (and a zero one) is replaced by 0 through \<open>|| 0\<close>.
\<close>

definition getBorders :: "env \<Rightarrow> el \<Rightarrow> axis \<Rightarrow> real" where
  "getBorders e t ax =
     (let props = (case ax of
                     AxisX \<Rightarrow> [''border-left-width'', ''border-right-width'']
                   | AxisY \<Rightarrow> [''border-top-width'', ''border-bottom-width''])
      in case foldl (\<lambda>total prop.
                case (total, parseInt (getCSSPropertyValue e t prop)) of
                  (Some a, Some b) \<Rightarrow> Some (a + b)
                | _ \<Rightarrow> None) (Some 0) props of
           Some n \<Rightarrow> of_int n
         | None \<Rightarrow> 0)"

text \<open>JavaScript truthiness of an optional string: present and not empty.\<close>

definition truthy :: "string option \<Rightarrow> bool" where
  "truthy s = (case s of None \<Rightarrow> False | Some v \<Rightarrow> v \<noteq> [])"

text \<open>\<open>isInsetProp(anchorSide)\<close> and \<open>getAxis(anchorSide)\<close>: a number is no property name.\<close>

definition isInsetSide :: "env \<Rightarrow> anchor_side \<Rightarrow> bool" where
  "isInsetSide e side = (case side of SideKeyword k \<Rightarrow> isInsetProp e k | _ \<Rightarrow> False)"

definition getAxisSide :: "anchor_side \<Rightarrow> axis option" where
  "getAxisSide side = (case side of SideKeyword k \<Rightarrow> getAxis k | _ \<Rightarrow> None)"

text \<open>The \<open>switch (anchorSide)\<close> of \<open>getPixelValue\<close> that sets \<open>percentage\<close>.\<close>

definition sidePercentage :: "env \<Rightarrow> el \<Rightarrow> anchor_side \<Rightarrow> real option" where
  "sidePercentage e t side =
     (if side = SideKeyword ''left'' then Some 0
      else if side = SideKeyword ''right'' then Some 100
      else if side = SideKeyword ''top'' then Some 0
      else if side = SideKeyword ''bottom'' then Some 100
      else if side = SideKeyword ''center'' then Some 50
      else resolveLogicalSideKeyword side (platform_isRTL e t))"

text \<open>The \<open>anchor-size()\<close> branch, entered when \<open>anchorSize\<close> is truthy.\<close>

definition anchorSizeValue :: "env \<Rightarrow> el \<Rightarrow> rect \<Rightarrow> string \<Rightarrow> string \<Rightarrow> string \<Rightarrow> string" where
  "anchorSizeValue e t r prop asize fb =
     (if \<not> isSizingProp e prop then fb
      else
        let sz =
          (if asize = ''width'' then Some Width
           else if asize = ''height'' then Some Height
           else
             let writingMode = getCSSPropertyValue e t ''writing-mode'';
                 vertical = (take 9 writingMode = ''vertical-'' \<or> take 9 writingMode = ''sideways-'')
             in resolveLogicalSizeKeyword asize vertical)
        in case sz of
             Some d \<Rightarrow> numberToString e (rect_dim r d) @ ''px''
           | None \<Rightarrow> fb)"

text \<open>
  The distance from the far edge of the offset parent, for \<open>bottom\<close> (\<open>vert = True\<close>,
  client and offset height) and \<open>right\<close> (client and offset width).
\<close>

definition farEdgeSize :: "env \<Rightarrow> el \<Rightarrow> axis \<Rightarrow> bool \<Rightarrow> real" where
  "farEdgeSize e p ax vert =
     (let client = (if vert then clientHeight e p else clientWidth e p)
      in if client = 0 \<and> isInline e p
         then (if vert then offsetHeight e p else offsetWidth e p) - getBorders e p ax
         else client)"

text \<open>The \<open>anchor()\<close> branch, entered when \<open>anchorSide\<close> is defined and \<open>anchorSize\<close> is not truthy.\<close>

definition anchorSideValue :: "env \<Rightarrow> el \<Rightarrow> rect \<Rightarrow> string \<Rightarrow> anchor_side \<Rightarrow> string \<Rightarrow> string" where
  "anchorSideValue e t r prop side fb =
     (let ax = getAxis prop in
      if \<not> (isInsetProp e prop \<and> ax \<noteq> None \<and> (\<not> isInsetSide e side \<or> ax = getAxisSide side))
      then fb
      else
        let percentage = sidePercentage e t side;
            dir = getAxisProperty ax
        in case (percentage, ax, dir) of
             (Some p, Some a, Some d) \<Rightarrow>
               let offsetParent =
                     (if prop = ''bottom'' \<or> prop = ''right'' then getOffsetParent e t else None);
                   v = rect_axis r a + rect_dim r d * (p / 100);
                   v' = (if prop = ''bottom'' then
                           (case offsetParent of
                              None \<Rightarrow> v
                            | Some op \<Rightarrow> farEdgeSize e op a True - v)
                         else if prop = ''right'' then
                           (case offsetParent of
                              None \<Rightarrow> v
                            | Some op \<Rightarrow> farEdgeSize e op a False - v)
                         else v)
               in numberToString e v' @ ''px''
           | _ \<Rightarrow> fb)"

definition getPixelValue :: "env \<Rightarrow> GetPixelValueOpts \<Rightarrow> string" where
  "getPixelValue e opts =
     (case (targetEl opts, anchorRect opts) of
        (Some t, Some r) \<Rightarrow>
          if \<not> (truthy (anchorSize opts) \<or> anchorSide opts \<noteq> None) then fallback opts
          else if truthy (anchorSize opts)
            then anchorSizeValue e t r (targetProperty opts) (the (anchorSize opts)) (fallback opts)
          else (case anchorSide opts of
                  Some side \<Rightarrow> anchorSideValue e t r (targetProperty opts) side (fallback opts)
                | None \<Rightarrow> fallback opts)
      | _ \<Rightarrow> fallback opts)"



section \<open>The fallback selector (polyfill.ts, applyPositionFallbacks)\<close>

text \<open>
  Of a \<open>TryBlock\<close> of the current parse.js the selector reads the \<open>uuid\<close> only. The
  state of one target is the \<open>checking\<close> flag of its closure (\<open>is_checking\<close>) and its
  \<open>data-anchor-polyfill\<close> attribute; \<open>checks\<close> is a log, for the statements only, of
  the attribute at every call of \<open>checkOverflow\<close>, oldest first.
\<close>

record TryBlock =
  uuid :: string

record target_state =
  is_checking :: bool
  attr :: "string option"
  checks :: "string option list"

text \<open>
  What one call of \<open>checkOverflow\<close> measures, together with the client size of the
  target read after it. The layout engine is an oracle \<open>nat \<Rightarrow> measurement\<close>: the
  answer to the check of the default layout is at 0, the answer to the check of the try
  block with index \<open>i\<close> at \<open>Suc i\<close>.
\<close>

record measurement =
  o_top :: real
  o_right :: real
  o_bottom :: real
  o_left :: real
  m_clientHeight :: real
  m_clientWidth :: real

text \<open>\<open>Object.values(overflow).every((side) => side <= 0)\<close>\<close>

definition noOverflow :: "measurement \<Rightarrow> bool" where
  "noOverflow ov = (o_top ov \<le> 0 \<and> o_right ov \<le> 0 \<and> o_bottom ov \<le> 0 \<and> o_left ov \<le> 0)"

definition setAttribute :: "string \<Rightarrow> target_state \<Rightarrow> target_state" where
  "setAttribute u s = s\<lparr>attr := Some u\<rparr>"

definition removeAttribute :: "target_state \<Rightarrow> target_state" where
  "removeAttribute s = s\<lparr>attr := None\<rparr>"

definition checkOverflow :: "target_state \<Rightarrow> target_state" where
  "checkOverflow s = s\<lparr>checks := checks s @ [attr s]\<rparr>"

text \<open>
  The loop of \<open>order === 'normal'\<close> over \<open>fallbacks.entries()\<close>; \<open>n\<close> is
  \<open>fallbacks.length\<close>. An empty list leaves the state as it is.
\<close>

fun tryLoop :: "(nat \<Rightarrow> measurement) \<Rightarrow> nat \<Rightarrow> nat \<Rightarrow> TryBlock list \<Rightarrow> target_state \<Rightarrow> target_state" where
  "tryLoop m n index [] s = s"
| "tryLoop m n index (fb # rest) s =
     (let s1 = checkOverflow (setAttribute (uuid fb) s);
          overflow = m (Suc index)
      in if noOverflow overflow then s1\<lparr>is_checking := False\<rparr>
         else if int index = int n - 1 then removeAttribute (s1\<lparr>is_checking := False\<rparr>)
         else tryLoop m n (Suc index) rest s1)"

text \<open>The visible height and width of a try block, from its measurement.\<close>

definition visibleHeight :: "measurement \<Rightarrow> real" where
  "visibleHeight ov = m_clientHeight ov - max 0 (o_top ov) - max 0 (o_bottom ov)"

definition visibleWidth :: "measurement \<Rightarrow> real" where
  "visibleWidth ov = m_clientWidth ov - max 0 (o_left ov) - max 0 (o_right ov)"

definition sorter :: "string \<Rightarrow> measurement \<Rightarrow> real" where
  "sorter order = (if order \<in> set [''most-height'', ''most-block-size'']
                   then visibleHeight else visibleWidth)"

text \<open>
  \<open>visibleArea\<close>: one entry per try block, in the order of \<open>fallbacks\<close>, and its sort:
  \<open>Array.prototype.sort\<close> is stable, and the comparator \<open>b - a\<close> orders by descending
  visible size, which is the ascending order of the negated size.
\<close>

definition visibleArea :: "(nat \<Rightarrow> measurement) \<Rightarrow> TryBlock list \<Rightarrow> (string \<times> measurement) list" where
  "visibleArea m fallbacks = map (\<lambda>(i, fb). (uuid fb, m (Suc i))) (enumerate 0 fallbacks)"

definition sortVisible :: "string \<Rightarrow> (string \<times> measurement) list \<Rightarrow> (string \<times> measurement) list" where
  "sortVisible order va = sort_key (\<lambda>(u, v). - sorter order v) va"

text \<open>
  The other orders. Every callback of \<open>fallbacks.map\<close> sets the attribute and calls
  \<open>checkOverflow\<close> before its first suspension, in the order of the list. Reading
  \<open>visibleArea[0].uuid\<close> of an empty array throws: the state then stays as it is, with
  \<open>checking\<close> still set.
\<close>

definition startAll :: "TryBlock list \<Rightarrow> target_state \<Rightarrow> target_state" where
  "startAll fallbacks s = foldl (\<lambda>s' fb. checkOverflow (setAttribute (uuid fb) s')) s fallbacks"

definition pickWinner :: "string \<Rightarrow> (nat \<Rightarrow> measurement) \<Rightarrow> TryBlock list \<Rightarrow> target_state \<Rightarrow> target_state" where
  "pickWinner order m fallbacks s =
     (case sortVisible order (visibleArea m fallbacks) of
        [] \<Rightarrow> s
      | (u, v) # rest \<Rightarrow> (setAttribute u s)\<lparr>is_checking := False\<rparr>)"

text \<open>
  The callback given to \<open>autoUpdate\<close> for one target, run from its start to its end
  with the answers of the oracle \<open>m\<close>.
\<close>

definition onUpdate :: "TryBlock list \<Rightarrow> string \<Rightarrow> (nat \<Rightarrow> measurement) \<Rightarrow> target_state \<Rightarrow> target_state" where
  "onUpdate fallbacks order m s =
     (if is_checking s then s
      else
        let s1 = checkOverflow (removeAttribute (s\<lparr>is_checking := True\<rparr>));
            defaultOverflow = m 0
        in if noOverflow defaultOverflow then s1\<lparr>is_checking := False\<rparr>
           else if order = ''normal'' then tryLoop m (length fallbacks) 0 fallbacks s1
           else pickWinner order m fallbacks (startAll fallbacks s1))"

subsection \<open>The callback as a coroutine\<close>

text \<open>
  The callback is an \<open>async\<close> function: it runs until an \<open>await\<close>, and other callbacks
  of the same target may run before it continues. \<open>cont\<close> names the \<open>await\<close> an
  invocation is suspended at: the check of the default layout, the check of the try
  block with the given index, or the \<open>Promise.all\<close> of the other orders. \<open>enter\<close> runs
  a new invocation to its first \<open>await\<close> (or its return), \<open>resume\<close> runs a suspended
  one to its next \<open>await\<close> (or its return); the second component is \<open>None\<close> when the
  invocation has returned.
\<close>

datatype cont = AwaitDefault | AwaitTry nat | AwaitAll

definition enter :: "target_state \<Rightarrow> target_state \<times> cont option" where
  "enter s =
     (if is_checking s then (s, None)
      else (checkOverflow (removeAttribute (s\<lparr>is_checking := True\<rparr>)), Some AwaitDefault))"

fun resume :: "TryBlock list \<Rightarrow> string \<Rightarrow> (nat \<Rightarrow> measurement) \<Rightarrow> cont \<Rightarrow> target_state
    \<Rightarrow> target_state \<times> cont option" where
  "resume fallbacks order m AwaitDefault s =
     (if noOverflow (m 0) then (s\<lparr>is_checking := False\<rparr>, None)
      else if order = ''normal'' then
        (case fallbacks of
           [] \<Rightarrow> (s, None)
         | fb # rest \<Rightarrow> (checkOverflow (setAttribute (uuid fb) s), Some (AwaitTry 0)))
      else (startAll fallbacks s, Some AwaitAll))"
| "resume fallbacks order m (AwaitTry index) s =
     (if noOverflow (m (Suc index)) then (s\<lparr>is_checking := False\<rparr>, None)
      else if int index = int (length fallbacks) - 1
        then (removeAttribute (s\<lparr>is_checking := False\<rparr>), None)
      else
        (case drop (Suc index) fallbacks of
           [] \<Rightarrow> (s, None)
         | fb # rest \<Rightarrow> (checkOverflow (setAttribute (uuid fb) s), Some (AwaitTry (Suc index)))))"
| "resume fallbacks order m AwaitAll s = (pickWinner order m fallbacks s, None)"

text \<open>
  One target with the invocations of its callback that are suspended. A layout-change
  notification (\<open>Notify\<close>) starts an invocation; \<open>Resume j m\<close> lets the suspended
  invocation number \<open>j\<close> continue with the measurements \<open>m\<close>.
\<close>

record target_system =
  tstate :: target_state
  suspended :: "cont list"

datatype event = Notify | Resume nat "nat \<Rightarrow> measurement"

fun fire :: "TryBlock list \<Rightarrow> string \<Rightarrow> target_system \<Rightarrow> event \<Rightarrow> target_system" where
  "fire fallbacks order sys Notify =
     (case enter (tstate sys) of
        (s', None) \<Rightarrow> sys\<lparr>tstate := s'\<rparr>
      | (s', Some c) \<Rightarrow> sys\<lparr>tstate := s', suspended := suspended sys @ [c]\<rparr>)"
| "fire fallbacks order sys (Resume j m) =
     (if j < length (suspended sys) then
        (case resume fallbacks order m (suspended sys ! j) (tstate sys) of
           (s', None) \<Rightarrow>
             sys\<lparr>tstate := s', suspended := take j (suspended sys) @ drop (Suc j) (suspended sys)\<rparr>
         | (s', Some c) \<Rightarrow> sys\<lparr>tstate := s', suspended := (suspended sys)[j := c]\<rparr>)
      else sys)"

definition idle :: target_system where
  "idle = \<lparr>tstate = \<lparr>is_checking = False, attr = None, checks = []\<rparr>, suspended = []\<rparr>"


text \<open>
  An invocation that no other invocation interleaves with: it is continued, with the
  answers of the oracle \<open>m\<close>, until it returns.
\<close>

function finish :: "TryBlock list \<Rightarrow> string \<Rightarrow> (nat \<Rightarrow> measurement) \<Rightarrow> target_state \<times> cont option
    \<Rightarrow> target_state" where
  "finish fbs order m (s, None) = s"
| "finish fbs order m (s, Some c) = finish fbs order m (resume fbs order m c s)"
  by pat_completeness auto
termination
proof (relation "measure (\<lambda>(fbs, order, m, s, c).
          case c of None \<Rightarrow> 0
          | Some AwaitAll \<Rightarrow> 1
          | Some (AwaitTry i) \<Rightarrow> Suc (length fbs - i)
          | Some AwaitDefault \<Rightarrow> length fbs + 3)", goal_cases)
  case 1
  show ?case by simp
next
  case (2 fbs order m s c)
  show ?case
  proof (cases c)
    case AwaitDefault
    then show ?thesis by (auto split: list.splits)
  next
    case (AwaitTry i)
    have "Suc i < length fbs" if "drop (Suc i) fbs = fb # rest" for fb rest
    proof (rule ccontr)
      assume "\<not> Suc i < length fbs"
      then have "drop (Suc i) fbs = []" by simp
      with that show False by simp
    qed
    with AwaitTry show ?thesis by (auto split: list.splits)
  next
    case AwaitAll
    then show ?thesis by simp
  qed
qed

section \<open>The rewrite pass (parse.ts)\<close>

text \<open>
  The syntax tree of csstree, as far as the pass reads it. Rule and at-rule preludes are
  not parsed (\<open>parseRulePrelude: false\<close>, \<open>parseAtrulePrelude: false\<close>), so a prelude is
  the text of its \<open>Raw\<close> node; the block of an at-rule may be missing. A declaration
  holds the children of its \<open>Value\<close>. \<open>OtherNode\<close> stands for a value node of any
  other type (a number, a dimension, a string), of which only the text is kept.
\<close>

datatype node =
    StyleSheet "node list"
  | Rule string "node list"
  | Atrule string "string option" "node list option"
  | Declaration string "node list"
  | Function string "node list"
  | Identifier string
  | Percentage string
  | Operator string
  | Raw string
  | OtherNode string

text \<open>
  The text of a style sheet is represented by the tree that \<open>csstree.parse\<close> gives for
  it, so \<open>getAST\<close> returns the tree as it is. Generating the text of a rewritten tree
  and parsing it again gives the same tree, except that a \<open>Raw\<close> node spelling
  \<open>var(name)\<close>, as the first pass leaves it, is read as that function call.
\<close>

type_synonym css = node

record StyleData =
  css :: css
  changed :: bool

record AnchorFunction =
  anchorEl :: "el option"
  anchorName :: "string option"
  anchorEdge :: "anchor_side option"
  fallbackValue :: string
  customPropName :: "string option"
  key :: string

datatype try_value = TryLiteral string | TryAnchor AnchorFunction

type_synonym try_block = "(string \<times> try_value) list"

record AnchorPosition =
  declarations :: "(string \<times> AnchorFunction) list option"
  pos_fallbacks :: "try_block list option"

type_synonym AnchorPositions = "(string \<times> AnchorPosition) list"

text \<open>
  What the pass calls outside the sources: \<open>uuid_v4 n\<close> is the result of call number
  \<open>n\<close> of \<open>uuid()\<close>, \<open>generate\<close> is \<open>csstree.generate\<close> on value nodes, \<open>toNumber\<close>
  is \<open>Number\<close> (\<open>None\<close> for \<open>NaN\<close>), \<open>querySelector\<close> is that of the document.
  \<open>querySelectorAll\<close> and \<open>acceptable\<close> are the parameters of the validity check.
\<close>

record lib =
  uuid_v4 :: "nat \<Rightarrow> string"
  generate :: "node list \<Rightarrow> string"
  toNumber :: "string \<Rightarrow> real option"
  querySelector :: "string \<Rightarrow> el option"
  querySelectorAll :: "string \<Rightarrow> el list"
  acceptable :: "el \<Rightarrow> el option \<Rightarrow> bool"

text \<open>
  The module-level state of parse.ts: the two registries, and the number of calls of
  \<open>uuid()\<close> so far.
\<close>

record registries =
  anchorNames :: "(string \<times> string list) list"
  customPropAssignments :: "(string \<times> AnchorFunction) list"
  uuidCount :: nat

text \<open>The registries together with the local tables of one call of \<open>parseCSS\<close>.\<close>

record parse_state =
  reg :: registries
  anchorFunctions :: "(string \<times> (string \<times> AnchorFunction) list) list"
  fallbackNames :: "(string \<times> string) list"
  fallbacks :: "(string \<times> try_block list) list"
  changed_local :: bool

text \<open>
  A JavaScript object used as a dictionary is an association list in insertion order
  (the order of \<open>Object.entries\<close>): \<open>assign\<close> is \<open>obj[k] = v\<close>, \<open>map_of\<close> is \<open>obj[k]\<close>.
\<close>

fun assign :: "'k \<Rightarrow> 'v \<Rightarrow> ('k \<times> 'v) list \<Rightarrow> ('k \<times> 'v) list" where
  "assign k v [] = [(k, v)]"
| "assign k v ((k', v') # kvs) = (if k = k' then (k, v) # kvs else (k', v') # assign k v kvs)"

definition getAST :: "css \<Rightarrow> node" where
  "getAST cssText = cssText"

definition reparseRaw :: "string \<Rightarrow> node" where
  "reparseRaw v =
     (if take 4 v = ''var('' \<and> 5 \<le> length v \<and> last v = CHR '')''
      then Function ''var'' [Identifier (butlast (drop 4 v))]
      else Raw v)"

fun generateCss :: "node \<Rightarrow> css" where
  "generateCss (StyleSheet cs) = StyleSheet (map generateCss cs)"
| "generateCss (Rule prelude cs) = Rule prelude (map generateCss cs)"
| "generateCss (Atrule name prelude None) = Atrule name prelude None"
| "generateCss (Atrule name prelude (Some cs)) = Atrule name prelude (Some (map generateCss cs))"
| "generateCss (Declaration property cs) = Declaration property (map generateCss cs)"
| "generateCss (Function name cs) = Function name (map generateCss cs)"
| "generateCss (Raw v) = reparseRaw v"
| "generateCss n = n"

subsection \<open>Classification of nodes\<close>

fun nodeName :: "node \<Rightarrow> string option" where
  "nodeName (Identifier name) = Some name"
| "nodeName (Function name cs) = Some name"
| "nodeName (Atrule name prelude block) = Some name"
| "nodeName n = None"

fun nodeValue :: "node \<Rightarrow> string" where
  "nodeValue (Percentage v) = v"
| "nodeValue (Operator v) = v"
| "nodeValue (Raw v) = v"
| "nodeValue n = []"

fun children :: "node \<Rightarrow> node list" where
  "children (Function name cs) = cs"
| "children (Declaration property cs) = cs"
| "children n = []"

fun isDeclaration :: "node \<Rightarrow> bool" where
  "isDeclaration (Declaration property cs) = True"
| "isDeclaration n = False"

fun isAnchorNameDeclaration :: "node \<Rightarrow> bool" where
  "isAnchorNameDeclaration (Declaration property cs) = (property = ''anchor-name'')"
| "isAnchorNameDeclaration n = False"

fun isAnchorFunction :: "node \<Rightarrow> bool" where
  "isAnchorFunction (Function name cs) = (name = ''anchor'')"
| "isAnchorFunction n = False"

fun isVarFunction :: "node \<Rightarrow> bool" where
  "isVarFunction (Function name cs) = (name = ''var'')"
| "isVarFunction n = False"

fun isFallbackDeclaration :: "node \<Rightarrow> bool" where
  "isFallbackDeclaration (Declaration property cs) = (property = ''position-fallback'')"
| "isFallbackDeclaration n = False"

fun isFallbackAtRule :: "node \<Rightarrow> bool" where
  "isFallbackAtRule (Atrule name prelude block) = (name = ''position-fallback'')"
| "isFallbackAtRule n = False"

fun isTryAtRule :: "node \<Rightarrow> bool" where
  "isTryAtRule (Atrule name prelude block) = (name = ''try'')"
| "isTryAtRule n = False"

fun isIdentifier :: "node \<Rightarrow> bool" where
  "isIdentifier (Identifier name) = (name \<noteq> [])"
| "isIdentifier n = False"

fun isPercentage :: "node \<Rightarrow> bool" where
  "isPercentage (Percentage v) = (v \<noteq> [])"
| "isPercentage n = False"

definition isInset :: "string \<Rightarrow> bool" where
  "isInset property = (property \<in> set [''left'', ''right'', ''top'', ''bottom''])"

subsection \<open>parseAnchorFn\<close>

text \<open>
  One step of the \<open>forEach\<close> over the children of the function node: the data collected
  so far with \<open>foundComma\<close>, and the child with its index.
\<close>

definition parseChild :: "lib \<Rightarrow> AnchorFunction \<times> bool \<Rightarrow> nat \<times> node \<Rightarrow> AnchorFunction \<times> bool" where
  "parseChild l acc ic =
     (case acc of (d, foundComma) \<Rightarrow>
      case ic of (idx, child) \<Rightarrow>
        if foundComma then (d\<lparr>fallbackValue := fallbackValue d @ generate l [child]\<rparr>, True)
        else if child = Operator '','' then (d, True)
        else if idx = 0 then
          (if isIdentifier child then (d\<lparr>anchorName := nodeName child\<rparr>, False)
           else if isVarFunction child \<and> children child \<noteq> []
             then (d\<lparr>customPropName := nodeName (hd (children child))\<rparr>, False)
           else (d, False))
        else if idx = 1 then
          (if isIdentifier child then (d\<lparr>anchorEdge := map_option SideKeyword (nodeName child)\<rparr>, False)
           else if isPercentage child
             then (d\<lparr>anchorEdge := map_option SideNumber (toNumber l (nodeValue child))\<rparr>, False)
           else (d, False))
        else (d, False))"

text \<open>
  \<open>parseAnchorFn\<close> at the call number \<open>n\<close> of \<open>uuid()\<close>. With \<open>replaceCss\<close> the caller
  replaces the node by \<open>placeholder\<close> of the key.
\<close>

definition parseAnchorFn :: "lib \<Rightarrow> node \<Rightarrow> nat \<Rightarrow> AnchorFunction" where
  "parseAnchorFn l node n =
     (let d = fst (foldl (parseChild l)
                (\<lparr>anchorEl = None, anchorName = None, anchorEdge = None, fallbackValue = [],
                  customPropName = None, key = []\<rparr>, False)
                (enumerate 0 (children node)))
      in d\<lparr>fallbackValue := (if fallbackValue d = [] then ''0px'' else fallbackValue d),
           key := ''--anchor-'' @ uuid_v4 l n\<rparr>)"

definition placeholder :: "string \<Rightarrow> node" where
  "placeholder k = Raw (''var('' @ k @ '')'')"

subsection \<open>The callback of the first walk\<close>

definition getAnchorNameData :: "node \<Rightarrow> string option \<Rightarrow> string option \<times> string option" where
  "getAnchorNameData node rule =
     (if isAnchorNameDeclaration node \<and> children node \<noteq> [] \<and> truthy rule
      then (nodeName (hd (children node)), rule)
      else (None, None))"

definition recordAnchorName :: "node \<Rightarrow> string option \<Rightarrow> registries \<Rightarrow> registries" where
  "recordAnchorName node rule r =
     (case getAnchorNameData node rule of
        (Some anchorName', Some anchorSelector) \<Rightarrow>
          if anchorName' \<noteq> [] \<and> anchorSelector \<noteq> [] then
            (case map_of (anchorNames r) anchorName' of
               Some sels \<Rightarrow> r\<lparr>anchorNames := assign anchorName' (sels @ [anchorSelector]) (anchorNames r)\<rparr>
             | None \<Rightarrow> r\<lparr>anchorNames := assign anchorName' [anchorSelector] (anchorNames r)\<rparr>)
          else r
      | _ \<Rightarrow> r)"

text \<open>
  \<open>getAnchorFunctionData\<close>: the node that replaces the visited one (if any), the
  returned \<open>{[property]: data}\<close> (if any), and the registries.
\<close>

definition getAnchorFunctionData ::
  "lib \<Rightarrow> node \<Rightarrow> string option \<Rightarrow> string option \<Rightarrow> registries
     \<Rightarrow> node option \<times> (string \<times> AnchorFunction) option \<times> registries" where
  "getAnchorFunctionData l node declaration rule r =
     (case declaration of
        Some property \<Rightarrow>
          if isAnchorFunction node \<and> truthy rule then
            (if take 2 property = ''--'' then
               let data = parseAnchorFn l node (uuidCount r)
               in (None, None,
                   r\<lparr>customPropAssignments := assign property data (customPropAssignments r),
                     uuidCount := Suc (uuidCount r)\<rparr>)
             else if isInset property then
               let data = parseAnchorFn l node (uuidCount r)
               in (Some (placeholder (key data)), Some (property, data),
                   r\<lparr>uuidCount := Suc (uuidCount r)\<rparr>)
             else (None, None, r))
          else (None, None, r)
      | None \<Rightarrow> (None, None, r))"

definition entriesOf :: "('k \<times> 'v list) list \<Rightarrow> 'k \<Rightarrow> 'v list" where
  "entriesOf obj k = (case map_of obj k of Some v \<Rightarrow> v | None \<Rightarrow> [])"

definition getPositionFallbackDeclaration :: "node \<Rightarrow> string option \<Rightarrow> string option \<times> string option" where
  "getPositionFallbackDeclaration node rule =
     (if isFallbackDeclaration node \<and> children node \<noteq> [] \<and> truthy rule
      then (nodeName (hd (children node)), rule)
      else (None, None))"

text \<open>One declaration of a \<open>@try\<close> block; the number is the count of \<open>uuid()\<close> calls.\<close>

definition tryDeclaration :: "lib \<Rightarrow> try_block \<times> nat \<Rightarrow> node \<Rightarrow> try_block \<times> nat" where
  "tryDeclaration l acc child =
     (case acc of (tryBlock, n) \<Rightarrow>
      case child of
        Declaration property cs \<Rightarrow>
          if cs \<noteq> [] \<and> isAnchorFunction (hd cs)
          then (assign property (TryAnchor (parseAnchorFn l (hd cs) n)) tryBlock, Suc n)
          else (assign property (TryLiteral (generate l cs)) tryBlock, n)
      | _ \<Rightarrow> (tryBlock, n))"

definition tryAtRule :: "lib \<Rightarrow> try_block list \<times> nat \<Rightarrow> node \<Rightarrow> try_block list \<times> nat" where
  "tryAtRule l acc atRule =
     (case acc of (tryBlocks, n) \<Rightarrow>
      case atRule of
        Atrule name prelude (Some cs) \<Rightarrow>
          (case foldl (tryDeclaration l) ([], n) (filter isDeclaration cs) of
             (tryBlock, n') \<Rightarrow> (tryBlocks @ [tryBlock], n'))
      | _ \<Rightarrow> (tryBlocks, n))"

definition getPositionFallbackRules ::
  "lib \<Rightarrow> node \<Rightarrow> nat \<Rightarrow> (string \<times> try_block list) option \<times> nat" where
  "getPositionFallbackRules l node n =
     (case node of
        Atrule name (Some prelude) (Some cs) \<Rightarrow>
          if name = ''position-fallback'' \<and> prelude \<noteq> [] then
            (case foldl (tryAtRule l) ([], n) (filter isTryAtRule cs) of
               (tryBlocks, n') \<Rightarrow> (Some (prelude, tryBlocks), n'))
          else (None, n)
      | _ \<Rightarrow> (None, n))"

text \<open>
  The callback of the first \<open>csstree.walk\<close>, with \<open>this.rule?.prelude\<close> (its text) and
  \<open>this.declaration\<close> (its property). The first component is the node that replaces the
  visited one, if it is replaced.
\<close>

definition visit1 ::
  "lib \<Rightarrow> string option \<Rightarrow> string option \<Rightarrow> node \<Rightarrow> parse_state \<Rightarrow> node option \<times> parse_state" where
  "visit1 l rule declaration node s =
     (let r1 = recordAnchorName node rule (reg s);
          (replaced, anchorFnData, r2) = getAnchorFunctionData l node declaration rule r1;
          s2 = (case (anchorFnData, rule) of
                  (Some (property, data), Some selector) \<Rightarrow>
                    if selector \<noteq> [] then
                      s\<lparr>anchorFunctions :=
                          assign selector (assign property data (entriesOf (anchorFunctions s) selector))
                            (anchorFunctions s),
                        changed_local := True\<rparr>
                    else s
                | _ \<Rightarrow> s);
          s3 = (case getPositionFallbackDeclaration node rule of
                  (Some fbName, Some fbSelector) \<Rightarrow>
                    if fbName \<noteq> [] \<and> fbSelector \<noteq> []
                    then s2\<lparr>fallbackNames := assign fbSelector fbName (fallbackNames s2)\<rparr>
                    else s2
                | _ \<Rightarrow> s2);
          (fbRule, n) = getPositionFallbackRules l node (uuidCount r2);
          s4 = (case fbRule of
                  Some (fbRuleName, fbTryBlocks) \<Rightarrow>
                    if fbRuleName \<noteq> [] \<and> fbTryBlocks \<noteq> []
                    then s3\<lparr>fallbacks := assign fbRuleName fbTryBlocks (fallbacks s3)\<rparr>
                    else s3
                | None \<Rightarrow> s3)
      in (replaced, s4\<lparr>reg := r2\<lparr>uuidCount := n\<rparr>\<rparr>))"

text \<open>
  \<open>csstree.walk\<close> calls the callback on a node before it descends, with the context of
  the enclosing rule and declaration; a node the callback has turned into \<open>Raw\<close> has no
  children to descend into. The walk also visits the \<open>Block\<close>, \<open>Value\<close> and prelude
  nodes, which are not represented: the callback does nothing on them.
\<close>

fun walk1 :: "lib \<Rightarrow> string option \<Rightarrow> string option \<Rightarrow> node \<Rightarrow> parse_state \<Rightarrow> node \<times> parse_state"
  and walk1_list :: "lib \<Rightarrow> string option \<Rightarrow> string option \<Rightarrow> node list \<Rightarrow> parse_state \<Rightarrow> node list \<times> parse_state"
where
  "walk1 l rule declaration node s =
     (case visit1 l rule declaration node s of
        (Some node', s') \<Rightarrow> (node', s')
      | (None, s') \<Rightarrow>
          (case node of
             StyleSheet cs \<Rightarrow>
               (case walk1_list l rule declaration cs s' of (cs', s'') \<Rightarrow> (StyleSheet cs', s''))
           | Rule prelude cs \<Rightarrow>
               (case walk1_list l (Some prelude) declaration cs s' of (cs', s'') \<Rightarrow> (Rule prelude cs', s''))
           | Atrule name prelude (Some cs) \<Rightarrow>
               (case walk1_list l rule declaration cs s' of
                  (cs', s'') \<Rightarrow> (Atrule name prelude (Some cs'), s''))
           | Declaration property cs \<Rightarrow>
               (case walk1_list l rule (Some property) cs s' of
                  (cs', s'') \<Rightarrow> (Declaration property cs', s''))
           | Function name cs \<Rightarrow>
               (case walk1_list l rule declaration cs s' of (cs', s'') \<Rightarrow> (Function name cs', s''))
           | _ \<Rightarrow> (node, s')))"
| "walk1_list l rule declaration [] s = ([], s)"
| "walk1_list l rule declaration (c # cs) s =
     (case walk1 l rule declaration c s of
        (c', s') \<Rightarrow>
          (case walk1_list l rule declaration cs s' of (cs', s'') \<Rightarrow> (c' # cs', s'')))"


subsection \<open>The callback of the second walk\<close>

text \<open>
  The first component is the new key, when the custom property read by the visited
  \<open>var()\<close> call has a recorded assignment: the callback then renames the first child.
\<close>

definition visit2 ::
  "string option \<Rightarrow> string option \<Rightarrow> node \<Rightarrow> parse_state \<Rightarrow> string option \<times> parse_state" where
  "visit2 rule declaration node s =
     (case (rule, declaration) of
        (Some selector, Some prop) \<Rightarrow>
          if selector \<noteq> [] \<and> isVarFunction node \<and> children node \<noteq> [] \<and> isInset prop then
            (case nodeName (hd (children node)) of
               Some name \<Rightarrow>
                 (case map_of (customPropAssignments (reg s)) name of
                    Some anchorFnData \<Rightarrow>
                      let k = key anchorFnData @ ''-'' @ prop;
                          data = anchorFnData\<lparr>key := k\<rparr>
                      in (Some k,
                          s\<lparr>anchorFunctions :=
                              assign selector (assign prop data (entriesOf (anchorFunctions s) selector))
                                (anchorFunctions s),
                            changed_local := True\<rparr>)
                  | None \<Rightarrow> (None, s))
             | None \<Rightarrow> (None, s))
          else (None, s)
      | _ \<Rightarrow> (None, s))"

fun renameNode :: "string \<Rightarrow> node \<Rightarrow> node" where
  "renameNode k (Identifier name) = Identifier k"
| "renameNode k (Function name cs) = Function k cs"
| "renameNode k n = n"

fun renameFirst :: "string option \<Rightarrow> node list \<Rightarrow> node list" where
  "renameFirst (Some k) (c # cs) = renameNode k c # cs"
| "renameFirst renamed cs = cs"

function walk2 :: "string option \<Rightarrow> string option \<Rightarrow> node \<Rightarrow> parse_state \<Rightarrow> node \<times> parse_state"
  and walk2_list :: "string option \<Rightarrow> string option \<Rightarrow> node list \<Rightarrow> parse_state \<Rightarrow> node list \<times> parse_state"
where
  "walk2 rule declaration node s =
     (case visit2 rule declaration node s of
        (renamed, s') \<Rightarrow>
          (case node of
             StyleSheet cs \<Rightarrow>
               (case walk2_list rule declaration cs s' of (cs', s'') \<Rightarrow> (StyleSheet cs', s''))
           | Rule prelude cs \<Rightarrow>
               (case walk2_list (Some prelude) declaration cs s' of (cs', s'') \<Rightarrow> (Rule prelude cs', s''))
           | Atrule name prelude (Some cs) \<Rightarrow>
               (case walk2_list rule declaration cs s' of
                  (cs', s'') \<Rightarrow> (Atrule name prelude (Some cs'), s''))
           | Declaration property cs \<Rightarrow>
               (case walk2_list rule (Some property) cs s' of
                  (cs', s'') \<Rightarrow> (Declaration property cs', s''))
           | Function name cs \<Rightarrow>
               (case walk2_list rule declaration (renameFirst renamed cs) s' of
                  (cs', s'') \<Rightarrow> (Function name cs', s''))
           | _ \<Rightarrow> (node, s')))"
| "walk2_list rule declaration [] s = ([], s)"
| "walk2_list rule declaration (c # cs) s =
     (case walk2 rule declaration c s of
        (c', s') \<Rightarrow>
          (case walk2_list rule declaration cs s' of (cs', s'') \<Rightarrow> (c' # cs', s'')))"
  by pat_completeness auto
termination
proof (relation "measure (\<lambda>x. case x of
          Inl (rule, declaration, node, s) \<Rightarrow> size node
        | Inr (rule, declaration, cs, s) \<Rightarrow> size_list size cs)", goal_cases)
  case (6 rl dc nd s renamed s' nm cs)
  have "size_list size (renameFirst renamed cs) = size_list size cs"
  proof (cases renamed)
    case None
    then show ?thesis by simp
  next
    case (Some k)
    show ?thesis
    proof (cases cs)
      case Nil
      then show ?thesis by simp
    next
      case (Cons c cs')
      have "size (renameNode k c) = size c" by (cases c) simp_all
      with Some Cons show ?thesis by simp
    qed
  qed
  with 6 show ?case by simp
qed simp_all

subsection \<open>Binding anchor elements\<close>

text \<open>
  Modelled from the spec: \<open>validatedForPositioning\<close> (validate.js) is not among the
  sources. The validity collaborator is \<open>validate(targetElement, candidateSelectors) ->
  Element | null\<close>; it returns the single validated element, or null if none qualify.
  The elements the candidate selectors match and the legality of an anchor for a target
  are the parameters \<open>querySelectorAll\<close> and \<open>acceptable\<close>.
\<close>

definition validatedForPositioning :: "lib \<Rightarrow> el option \<Rightarrow> string list \<Rightarrow> el option" where
  "validatedForPositioning l target anchorSelectors =
     find (\<lambda>a. acceptable l a target) (concat (map (querySelectorAll l) anchorSelectors))"

definition getAnchorEl :: "env \<Rightarrow> lib \<Rightarrow> registries \<Rightarrow> el option \<Rightarrow> AnchorFunction \<Rightarrow> el option" where
  "getAnchorEl e l r target anchorObj =
     (let anchorName' =
            (case (target, customPropName anchorObj) of
               (Some t, Some customPropName') \<Rightarrow>
                 if \<not> truthy (anchorName anchorObj) \<and> customPropName' \<noteq> []
                 then Some (getCSSPropertyValue e t customPropName')
                 else anchorName anchorObj
             | _ \<Rightarrow> anchorName anchorObj);
          anchorSelectors =
            (if truthy anchorName' then entriesOf (anchorNames r) (the anchorName') else [])
      in validatedForPositioning l target anchorSelectors)"

definition bindTryBlock :: "env \<Rightarrow> lib \<Rightarrow> registries \<Rightarrow> el option \<Rightarrow> try_block \<Rightarrow> try_block" where
  "bindTryBlock e l r target tryBlock =
     map (\<lambda>(prop, v). case v of
            TryAnchor a \<Rightarrow> (prop, TryAnchor (a\<lparr>anchorEl := getAnchorEl e l r target a\<rparr>))
          | TryLiteral t \<Rightarrow> (prop, TryLiteral t)) tryBlock"

text \<open>
  The loop over \<open>Object.entries(fallbackNames)\<close>. The try blocks of a name are one array
  shared by every selector using the name, and the loop writes \<open>anchorEl\<close> into it: the
  table of try blocks is updated here, and \<open>validPositions[targetSel].fallbacks\<close> is a
  reference to the entry of the name, read when the loop has ended.
\<close>

definition bindFallbacks ::
  "env \<Rightarrow> lib \<Rightarrow> registries \<Rightarrow> (string \<times> try_block list) list \<times> (string \<times> string) list
     \<Rightarrow> string \<times> string \<Rightarrow> (string \<times> try_block list) list \<times> (string \<times> string) list" where
  "bindFallbacks e l r acc entry =
     (case acc of (table, refs) \<Rightarrow>
      case entry of (targetSel, fallbackName) \<Rightarrow>
        (case map_of table fallbackName of
           Some positionFallbacks \<Rightarrow>
             let target = querySelector l targetSel
             in (assign fallbackName (map (bindTryBlock e l r target) positionFallbacks) table,
                 assign targetSel fallbackName refs)
         | None \<Rightarrow> (table, refs)))"

text \<open>The loop over \<open>Object.entries(anchorFunctions)\<close> and, inside, over the properties.\<close>

definition storeDeclaration ::
  "env \<Rightarrow> lib \<Rightarrow> registries \<Rightarrow> string \<Rightarrow> el option \<Rightarrow> AnchorPositions \<Rightarrow> string \<times> AnchorFunction
     \<Rightarrow> AnchorPositions" where
  "storeDeclaration e l r targetSel target validPositions entry =
     (case entry of (targetProp, anchorObj) \<Rightarrow>
        let bound = anchorObj\<lparr>anchorEl := getAnchorEl e l r target anchorObj\<rparr>
        in (case map_of validPositions targetSel of
              Some pos \<Rightarrow>
                assign targetSel
                  (pos\<lparr>declarations :=
                      Some (assign targetProp bound
                              (case declarations pos of Some ds \<Rightarrow> ds | None \<Rightarrow> []))\<rparr>)
                  validPositions
            | None \<Rightarrow>
                assign targetSel
                  \<lparr>declarations = Some [(targetProp, bound)], pos_fallbacks = None\<rparr>
                  validPositions))"

definition storeDeclarations ::
  "env \<Rightarrow> lib \<Rightarrow> registries \<Rightarrow> AnchorPositions \<Rightarrow> string \<times> (string \<times> AnchorFunction) list
     \<Rightarrow> AnchorPositions" where
  "storeDeclarations e l r validPositions entry =
     (case entry of (targetSel, anchorFns) \<Rightarrow>
        foldl (storeDeclaration e l r targetSel (querySelector l targetSel)) validPositions anchorFns)"

subsection \<open>parseCSS\<close>

definition pass1 :: "lib \<Rightarrow> StyleData list \<times> parse_state \<Rightarrow> StyleData \<Rightarrow> StyleData list \<times> parse_state" where
  "pass1 l acc styleObj =
     (case acc of (done, s) \<Rightarrow>
      case walk1 l None None (getAST (css styleObj)) (s\<lparr>changed_local := False\<rparr>) of
        (ast, s') \<Rightarrow>
          (done @ [if changed_local s' then styleObj\<lparr>css := generateCss ast, changed := True\<rparr>
                   else styleObj], s'))"

definition pass2 :: "StyleData list \<times> parse_state \<Rightarrow> StyleData \<Rightarrow> StyleData list \<times> parse_state" where
  "pass2 acc styleObj =
     (case acc of (done, s) \<Rightarrow>
      case walk2 None None (getAST (css styleObj)) (s\<lparr>changed_local := False\<rparr>) of
        (ast, s') \<Rightarrow>
          (done @ [if changed_local s' then styleObj\<lparr>css := generateCss ast, changed := True\<rparr>
                   else styleObj], s'))"

text \<open>
  \<open>parseCSS\<close> reads and writes the module-level registries: it takes them as they are
  when it is called and returns them as it leaves them, with the rule model and the
  style data (which it updates in place).
\<close>

definition parseCSS ::
  "env \<Rightarrow> lib \<Rightarrow> StyleData list \<Rightarrow> registries \<Rightarrow> AnchorPositions \<times> StyleData list \<times> registries" where
  "parseCSS e l styleData r =
     (let s0 = \<lparr>reg = r, anchorFunctions = [], fallbackNames = [], fallbacks = [],
                changed_local = False\<rparr>;
          (styleData1, s1) = foldl (pass1 l) ([], s0) styleData;
          (styleData2, s2) =
            (if customPropAssignments (reg s1) \<noteq> [] then foldl pass2 ([], s1) styleData1
             else (styleData1, s1));
          (table, refs) = foldl (bindFallbacks e l (reg s2)) (fallbacks s2, []) (fallbackNames s2);
          validPositions1 =
            map (\<lambda>(targetSel, fallbackName).
                   (targetSel, \<lparr>declarations = None, pos_fallbacks = map_of table fallbackName\<rparr>)) refs;
          validPositions = foldl (storeDeclarations e l (reg s2)) validPositions1 (anchorFunctions s2)
      in (validPositions, styleData2, reg s2))"

definition freshRegistries :: registries where
  "freshRegistries = \<lparr>anchorNames = [], customPropAssignments = [], uuidCount = 0\<rparr>"


subsection \<open>Rewritten text\<close>







subsection \<open>Growth of the registries\<close>

text \<open>
  \<open>keeps r r'\<close>: every anchor name of \<open>r\<close> is in \<open>r'\<close> with the selectors it had in
  \<open>r\<close>, in their order, before any other; every custom property with an assignment in
  \<open>r\<close> has one in \<open>r'\<close>; and no less calls of \<open>uuid()\<close> were made.
\<close>

definition keeps :: "registries \<Rightarrow> registries \<Rightarrow> bool" where
  "keeps r r' =
     ((\<forall>name sels. map_of (anchorNames r) name = Some sels \<longrightarrow>
         (\<exists>more. map_of (anchorNames r') name = Some (sels @ more)))
      \<and> fst ` set (customPropAssignments r) \<subseteq> fst ` set (customPropAssignments r')
      \<and> uuidCount r \<le> uuidCount r')"

section \<open>Example inputs\<close>

text \<open>A printer of numbers for the examples: the integer part, up to three digits.\<close>

definition digitChar :: "nat \<Rightarrow> char" where
  "digitChar n = ''0123456789'' ! (n mod 10)"

definition showNumber :: "real \<Rightarrow> string" where
  "showNumber v =
     (let n = nat \<lfloor>\<bar>v\<bar>\<rfloor> in
      (if v < 0 then ''-'' else []) @
      (if n < 10 then [digitChar n]
       else if n < 100 then [digitChar (n div 10), digitChar n]
       else [digitChar (n div 100), digitChar (n div 10), digitChar n]))"

text \<open>
  A document for the examples: element 5 is right-to-left; the offset parent of element
  2 is element 7, an inline box with no client size, an offset height of 305 and
  borders of 2 and 3 pixels; every other offset parent is element 0 of 800 by 600.
\<close>

definition example_env :: env where
  "example_env =
     \<lparr>isInsetProp = isInset,
      isSizingProp = (\<lambda>p. p \<in> set [''width'', ''height'', ''min-width'', ''min-height'',
                                    ''max-width'', ''max-height'']),
      computedStyle = (\<lambda>t p. if p = ''display'' then (if t = 7 then ''inline'' else ''block'')
                          else if p = ''border-top-width'' then '' 2px''
                          else if p = ''border-bottom-width'' then ''3px''
                          else []),
      platform_isRTL = (\<lambda>t. t = 5),
      platform_getOffsetParent = (\<lambda>t. if t = 2 then Some 7 else None),
      platform_getDocumentElement = (\<lambda>t. Some 0),
      window_documentElement = Some 0,
      clientHeight = (\<lambda>t. if t = 7 then 0 else 600),
      clientWidth = (\<lambda>t. if t = 7 then 0 else 800),
      offsetHeight = (\<lambda>t. if t = 7 then 305 else 600),
      offsetWidth = (\<lambda>t. 800),
      numberToString = showNumber\<rparr>"

definition example_rect :: rect where
  "example_rect = \<lparr>rect_x = 10, rect_y = 20, rect_width = 100, rect_height = 40\<rparr>"

definition example_opts :: "el \<Rightarrow> string \<Rightarrow> anchor_side option \<Rightarrow> string option \<Rightarrow> GetPixelValueOpts" where
  "example_opts t prop side asize =
     \<lparr>targetEl = Some t, targetProperty = prop, anchorRect = Some example_rect,
      anchorSide = side, anchorSize = asize, fallback = ''7em''\<rparr>"

definition example_fallbacks :: "TryBlock list" where
  "example_fallbacks = [\<lparr>uuid = ''try-a''\<rparr>, \<lparr>uuid = ''try-b''\<rparr>, \<lparr>uuid = ''try-c''\<rparr>]"

definition example_idle :: target_state where
  "example_idle = \<lparr>is_checking = False, attr = None, checks = []\<rparr>"

text \<open>
  Measurements of a target of 50 by 50: \<open>overflowing k\<close> overflows at the bottom and at
  the right by \<open>k\<close> pixels.
\<close>

definition overflowing :: "real \<Rightarrow> measurement" where
  "overflowing k = \<lparr>o_top = - 5, o_right = k, o_bottom = k, o_left = - 5,
                     m_clientHeight = 50, m_clientWidth = 50\<rparr>"

text \<open>The default layout and the first try block overflow, the second fits.\<close>

definition example_fit :: "nat \<Rightarrow> measurement" where
  "example_fit i = (if i = 0 then overflowing 10 else if i = 1 then overflowing 4
                    else if i = 2 then overflowing 0 else overflowing 9)"

text \<open>Every layout overflows; the second and the third try block overflow least.\<close>

definition example_tight :: "nat \<Rightarrow> measurement" where
  "example_tight i = (if i = 0 then overflowing 10 else if i = 1 then overflowing 8
                      else overflowing 3)"

fun nodeText :: "node \<Rightarrow> string" where
  "nodeText (Identifier name) = name"
| "nodeText (Percentage v) = v @ ''%''"
| "nodeText (Operator v) = v"
| "nodeText (Raw v) = v"
| "nodeText (OtherNode v) = v"
| "nodeText (Function name cs) = name @ ''('' @ concat (map nodeText cs) @ '')''"
| "nodeText n = []"

text \<open>
  A library and a document for the examples of the rewrite pass: the selectors
  \<open>#a\<close>, \<open>#t\<close> and \<open>#b\<close> match the elements 1, 2 and 3, and every anchor is acceptable.
\<close>

definition example_lib :: lib where
  "example_lib =
     \<lparr>uuid_v4 = (\<lambda>n. ''u'' @ replicate n (CHR ''i'')),
      generate = (\<lambda>cs. concat (map nodeText cs)),
      toNumber = (\<lambda>v. map_option of_int (parseInt v)),
      querySelector = (\<lambda>sel. if sel = ''#a'' then Some 1 else if sel = ''#t'' then Some 2
                           else if sel = ''#b'' then Some 3 else None),
      querySelectorAll = (\<lambda>sel. if sel = ''#a'' then [1] else if sel = ''#t'' then [2]
                           else if sel = ''#b'' then [3] else []),
      acceptable = (\<lambda>a t. True)\<rparr>"



text \<open>
  Style sheets for the examples.
  \<^item> \<open>sheetA\<close>: \<^verbatim>\<open>#a { anchor-name: --x; --c: anchor(--x 50%) }\<close>
  \<^item> \<open>sheetB\<close>: \<^verbatim>\<open>#t { top: var(--c) }\<close>
  \<^item> \<open>sheetC\<close>: \<^verbatim>\<open>#a { --c: anchor(--x 50%); top: var(--c) } #b { top: var(--c) }\<close>
  \<^item> \<open>sheetE\<close>, a rewritten text:
    \<^verbatim>\<open>#a { anchor-name: --x } #t { top: var(--anchor-u); position-fallback: --fb }
    @position-fallback --fb { @try { width: 35px } }\<close>
\<close>

definition sheetA :: css where
  "sheetA = StyleSheet
     [Rule ''#a'' [Declaration ''anchor-name'' [Identifier ''--x''],
                 Declaration ''--c'' [Function ''anchor'' [Identifier ''--x'', Percentage ''50'']]]]"

definition sheetB :: css where
  "sheetB = StyleSheet [Rule ''#t'' [Declaration ''top'' [Function ''var'' [Identifier ''--c'']]]]"

definition sheetC :: css where
  "sheetC = StyleSheet
     [Rule ''#a'' [Declaration ''--c'' [Function ''anchor'' [Identifier ''--x'', Percentage ''50'']],
                 Declaration ''top'' [Function ''var'' [Identifier ''--c'']]],
      Rule ''#b'' [Declaration ''top'' [Function ''var'' [Identifier ''--c'']]]]"

definition sheetE :: css where
  "sheetE = StyleSheet
     [Rule ''#a'' [Declaration ''anchor-name'' [Identifier ''--x'']],
      Rule ''#t'' [Declaration ''top'' [Function ''var'' [Identifier ''--anchor-u'']],
                 Declaration ''position-fallback'' [Identifier ''--fb'']],
      Atrule ''position-fallback'' (Some ''--fb'')
        (Some [Atrule ''try'' None (Some [Declaration ''width'' [OtherNode ''35px'']])])]"

text \<open>The registries as a call of \<open>parseCSS\<close> on \<open>sheetA\<close> leaves them.\<close>

definition registriesAfterA :: registries where
  "registriesAfterA =
     \<lparr>anchorNames = [(''--x'', [''#a''])],
      customPropAssignments =
        [(''--c'', \<lparr>anchorEl = None, anchorName = Some ''--x'', anchorEdge = Some (SideNumber 50),
                   fallbackValue = ''0px'', customPropName = None, key = ''--anchor-u''\<rparr>)],
      uuidCount = 1\<rparr>"

section \<open>Properties of the pixel resolver\<close>

text \<open>
  C2 (as amended). The percentage an \<open>anchor()\<close> side resolves to: the physical keywords
  give fixed endpoints (left and top 0, right and bottom 100, center 50); the logical
  keywords give 0 for start and self-start and 100 for end and self-end, flipped to
  \<open>100 - p\<close> when the target is right-to-left; a numeric percentage \<open>p\<close> is resolved the
  same way as a logical keyword: it stays \<open>p\<close> for a left-to-right target and becomes
  \<open>100 - p\<close> for a right-to-left one.
\<close>

theorem side_percentage_resolution:
  "sidePercentage e t (SideKeyword ''left'') = Some 0
   \<and> sidePercentage e t (SideKeyword ''top'') = Some 0
   \<and> sidePercentage e t (SideKeyword ''right'') = Some 100
   \<and> sidePercentage e t (SideKeyword ''bottom'') = Some 100
   \<and> sidePercentage e t (SideKeyword ''center'') = Some 50
   \<and> sidePercentage e t (SideKeyword ''start'') = Some (if platform_isRTL e t then 100 else 0)
   \<and> sidePercentage e t (SideKeyword ''self-start'') = Some (if platform_isRTL e t then 100 else 0)
   \<and> sidePercentage e t (SideKeyword ''end'') = Some (if platform_isRTL e t then 0 else 100)
   \<and> sidePercentage e t (SideKeyword ''self-end'') = Some (if platform_isRTL e t then 0 else 100)
   \<and> sidePercentage e t (SideNumber p) = Some (if platform_isRTL e t then 100 - p else p)"
  by (simp add: sidePercentage_def resolveLogicalSideKeyword_def)

text \<open>
  C2 as stated fails: for the right-to-left element 5 the numeric percentage 25 resolves
  to 75, and \<open>anchor(25%)\<close> for \<open>left\<close> on the example rectangle (origin 10, width 100)
  gives 85 pixels, not 35.
\<close>

theorem numeric_percentage_flipped_counterexample:
  "sidePercentage example_env 5 (SideNumber 25) = Some 75
   \<and> sidePercentage example_env 5 (SideNumber 25) \<noteq> Some 25
   \<and> getPixelValue example_env (example_opts 5 ''left'' (Some (SideNumber 25)) None) = ''85px''"
  by (simp add: sidePercentage_def resolveLogicalSideKeyword_def example_env_def getPixelValue_def
      example_opts_def truthy_def anchorSideValue_def getAxis_def isInset_def isInsetSide_def
      example_rect_def showNumber_def digitChar_def)

text \<open>
  C4. For an \<open>anchor()\<close> reference with a target element and an anchor rectangle, on an
  inset property whose axis the side agrees with, and a side that resolves to the
  percentage \<open>p\<close>: the result is the number \<open>v\<close> followed by \<open>px\<close>, where the offset
  along the axis is the origin of the rectangle plus its size times \<open>p / 100\<close>; for
  \<open>top\<close> and \<open>left\<close>, \<open>v\<close> is the offset; for \<open>bottom\<close> and \<open>right\<close>, \<open>v\<close> is the
  client height (width) of the offset parent minus the offset, where for an inline
  offset parent with a client size of zero the offset size minus the borders is taken
  instead. In particular \<open>anchor(bottom)\<close> for \<open>top\<close> gives the origin plus the height.
\<close>

theorem anchor_offset_pixels:
  assumes "targetEl opts = Some t" and "anchorRect opts = Some r"
    and "\<not> truthy (anchorSize opts)" and "anchorSide opts = Some side"
    and "isInsetProp e (targetProperty opts)"
    and "getAxis (targetProperty opts) = Some a"
    and "\<not> isInsetSide e side \<or> getAxisSide side = Some a"
    and "sidePercentage e t side = Some p"
  shows "getPixelValue e opts =
     (let offsetAlongAxis =
            rect_axis r a + rect_dim r (case a of AxisX \<Rightarrow> Width | AxisY \<Rightarrow> Height) * (p / 100)
      in numberToString e
          (if targetProperty opts = ''top'' \<or> targetProperty opts = ''left'' then offsetAlongAxis
           else case getOffsetParent e t of
                  None \<Rightarrow> offsetAlongAxis
                | Some op \<Rightarrow>
                   (if targetProperty opts = ''bottom'' then
                      (if clientHeight e op = 0 \<and> isInline e op
                       then offsetHeight e op - getBorders e op a else clientHeight e op)
                    else
                      (if clientWidth e op = 0 \<and> isInline e op
                       then offsetWidth e op - getBorders e op a else clientWidth e op))
                   - offsetAlongAxis) @ ''px'')
    \<and> (targetProperty opts = ''top'' \<and> side = SideKeyword ''bottom'' \<longrightarrow>
         getPixelValue e opts = numberToString e (rect_y r + rect_height r) @ ''px'')"
proof -
  have main: "getPixelValue e opts =
     (let offsetAlongAxis =
            rect_axis r a + rect_dim r (case a of AxisX \<Rightarrow> Width | AxisY \<Rightarrow> Height) * (p / 100)
      in numberToString e
          (if targetProperty opts = ''top'' \<or> targetProperty opts = ''left'' then offsetAlongAxis
           else case getOffsetParent e t of
                  None \<Rightarrow> offsetAlongAxis
                | Some op \<Rightarrow>
                   (if targetProperty opts = ''bottom'' then
                      (if clientHeight e op = 0 \<and> isInline e op
                       then offsetHeight e op - getBorders e op a else clientHeight e op)
                    else
                      (if clientWidth e op = 0 \<and> isInline e op
                       then offsetWidth e op - getBorders e op a else clientWidth e op))
                   - offsetAlongAxis) @ ''px'')"
    using assms
    by (cases a) (auto simp: getPixelValue_def anchorSideValue_def farEdgeSize_def getAxis_def Let_def
        split: if_splits option.splits)
  have "getPixelValue e opts = numberToString e (rect_y r + rect_height r) @ ''px''"
    if "targetProperty opts = ''top''" and "side = SideKeyword ''bottom''"
  proof -
    from that assms(6) have a: "a = AxisY" by (simp add: getAxis_def)
    from that assms(8) have p: "p = 100" by (simp add: sidePercentage_def)
    show ?thesis using main that a p by simp
  qed
  with main show ?thesis by blast
qed

theorem anchor_offset_pixels_witness:
  "getPixelValue example_env (example_opts 2 ''bottom'' (Some (SideKeyword ''top'')) None) = ''280px''
   \<and> getPixelValue example_env (example_opts 1 ''top'' (Some (SideKeyword ''bottom'')) None) = ''60px''"
proof -
  have b: "getBorders example_env 7 AxisY = 5"
    by (simp add: getBorders_def getCSSPropertyValue_def trim_def isSpace_def parseInt_def
        isDigit_def digitVal_def example_env_def)
  have i: "isInline example_env 7"
    by (simp add: isInline_def getCSSPropertyValue_def trim_def isSpace_def example_env_def)
  have o: "getOffsetParent example_env 2 = Some 7"
    by (simp add: getOffsetParent_def example_env_def)
  have c: "clientHeight example_env 7 = 0" "offsetHeight example_env 7 = 305"
    by (simp_all add: example_env_def)
  have n: "numberToString example_env = showNumber"
    by (simp add: example_env_def)
  have "getPixelValue example_env (example_opts 2 ''bottom'' (Some (SideKeyword ''top'')) None) = ''280px''"
    using anchor_offset_pixels [of "example_opts 2 ''bottom'' (Some (SideKeyword ''top'')) None" 2
        example_rect "SideKeyword ''top''" example_env AxisY 0] b i o c n
    by (simp add: example_opts_def truthy_def getAxis_def getAxisSide_def sidePercentage_def
        example_rect_def showNumber_def digitChar_def)
      (simp add: example_env_def isInset_def)
  moreover
  have "getPixelValue example_env (example_opts 1 ''top'' (Some (SideKeyword ''bottom'')) None) = ''60px''"
    using anchor_offset_pixels [of "example_opts 1 ''top'' (Some (SideKeyword ''bottom'')) None" 1
        example_rect "SideKeyword ''bottom''" example_env AxisY 100] n
    by (simp add: example_opts_def truthy_def getAxis_def getAxisSide_def sidePercentage_def
        example_rect_def showNumber_def digitChar_def)
      (simp add: example_env_def isInset_def)
  ultimately show ?thesis by simp
qed


text \<open>
  C6. The resolver returns the fallback string when an \<open>anchor()\<close> reference (a side
  and no size) is on a property that is no inset property; when the side of an
  \<open>anchor()\<close> reference is a physical keyword (recognised as an inset property) whose
  axis is not the axis of the target property; and when an \<open>anchor-size()\<close> reference
  (a size) is on a property that is no sizing property.
\<close>

theorem mismatch_falls_back:
  "(\<not> truthy (anchorSize opts) \<and> anchorSide opts \<noteq> None \<and> \<not> isInsetProp e (targetProperty opts)
      \<longrightarrow> getPixelValue e opts = fallback opts)
   \<and> (\<not> truthy (anchorSize opts) \<and> anchorSide opts = Some (SideKeyword k)
        \<and> k \<in> set [''left'', ''right'', ''top'', ''bottom''] \<and> isInsetProp e k
        \<and> getAxis k \<noteq> getAxis (targetProperty opts)
      \<longrightarrow> getPixelValue e opts = fallback opts)
   \<and> (truthy (anchorSize opts) \<and> \<not> isSizingProp e (targetProperty opts)
      \<longrightarrow> getPixelValue e opts = fallback opts)"
  by (auto simp: getPixelValue_def anchorSideValue_def anchorSizeValue_def isInsetSide_def
      getAxisSide_def Let_def split: option.splits)

theorem mismatch_falls_back_witness:
  "getPixelValue example_env (example_opts 1 ''width'' (Some (SideKeyword ''left'')) None) = ''7em''
   \<and> getPixelValue example_env (example_opts 1 ''top'' (Some (SideKeyword ''left'')) None) = ''7em''
   \<and> getPixelValue example_env (example_opts 1 ''top'' None (Some ''width'')) = ''7em''"
proof -
  have "getPixelValue example_env (example_opts 1 ''width'' (Some (SideKeyword ''left'')) None) = ''7em''"
    using mismatch_falls_back [of "example_opts 1 ''width'' (Some (SideKeyword ''left'')) None" example_env]
    by (simp add: example_opts_def truthy_def example_env_def isInset_def)
  moreover
  have "getPixelValue example_env (example_opts 1 ''top'' (Some (SideKeyword ''left'')) None) = ''7em''"
    using mismatch_falls_back [of "example_opts 1 ''top'' (Some (SideKeyword ''left'')) None" example_env
        "''left''"]
    by (simp add: example_opts_def truthy_def example_env_def isInset_def getAxis_def)
  moreover
  have "getPixelValue example_env (example_opts 1 ''top'' None (Some ''width'')) = ''7em''"
    using mismatch_falls_back [of "example_opts 1 ''top'' None (Some ''width'')" example_env]
    by (simp add: example_opts_def truthy_def example_env_def)
  ultimately show ?thesis by simp
qed



section \<open>Properties of the fallback selector\<close>

lemma tryLoop_fit:
  "k < length fbs \<Longrightarrow> noOverflow (m (Suc (i + k))) \<Longrightarrow> (\<forall>j<k. \<not> noOverflow (m (Suc (i + j)))) \<Longrightarrow>
   n = i + length fbs \<Longrightarrow>
   tryLoop m n i fbs s =
     s\<lparr>is_checking := False, attr := Some (uuid (fbs ! k)),
       checks := checks s @ map (\<lambda>fb. Some (uuid fb)) (take (Suc k) fbs)\<rparr>"
proof (induction fbs arbitrary: i k s)
  case Nil
  then show ?case by simp
next
  case (Cons fb rest)
  show ?case
  proof (cases k)
    case 0
    with Cons.prems show ?thesis
      by (simp add: checkOverflow_def setAttribute_def)
  next
    case (Suc k')
    from Cons.prems Suc have h0: "\<not> noOverflow (m (Suc i))" by (metis add.right_neutral zero_less_Suc)
    from Cons.prems Suc have nl: "int i \<noteq> int n - 1" by auto
    have "tryLoop m n (Suc i) rest (checkOverflow (setAttribute (uuid fb) s)) =
       (checkOverflow (setAttribute (uuid fb) s))\<lparr>is_checking := False, attr := Some (uuid (rest ! k')),
       checks := checks (checkOverflow (setAttribute (uuid fb) s)) @ map (\<lambda>fb. Some (uuid fb)) (take (Suc k') rest)\<rparr>"
      using Cons.prems Suc by (intro Cons.IH) auto
    then show ?thesis using h0 nl Suc
      by (simp add: checkOverflow_def setAttribute_def Let_def)
  qed
qed

lemma tryLoop_none:
  "fbs \<noteq> [] \<Longrightarrow> (\<forall>j<length fbs. \<not> noOverflow (m (Suc (i + j)))) \<Longrightarrow> n = i + length fbs \<Longrightarrow>
   tryLoop m n i fbs s =
     s\<lparr>is_checking := False, attr := None,
       checks := checks s @ map (\<lambda>fb. Some (uuid fb)) fbs\<rparr>"
proof (induction fbs arbitrary: i s)
  case Nil
  then show ?case by simp
next
  case (Cons fb rest)
  from Cons.prems have h0: "\<not> noOverflow (m (Suc i))" by (metis add.right_neutral length_greater_0_conv)
  show ?case
  proof (cases rest)
    case Nil
    with Cons.prems h0 show ?thesis
      by (simp add: checkOverflow_def setAttribute_def removeAttribute_def)
  next
    case (Cons fb' rest')
    then have ne: "rest \<noteq> []" by simp
    have nl: "int i \<noteq> int n - 1" using Cons.prems(3) ne by (cases rest) auto
    have "tryLoop m n (Suc i) rest (checkOverflow (setAttribute (uuid fb) s)) =
       (checkOverflow (setAttribute (uuid fb) s))\<lparr>is_checking := False, attr := None,
       checks := checks (checkOverflow (setAttribute (uuid fb) s)) @ map (\<lambda>fb. Some (uuid fb)) rest\<rparr>"
      using Cons.prems ne by (intro Cons.IH) auto
    then show ?thesis using h0 nl
      by (simp add: checkOverflow_def setAttribute_def Let_def)
  qed
qed


lemma startAll_eq:
  "startAll fbs s =
     s\<lparr>attr := (if fbs = [] then attr s else Some (uuid (last fbs))),
       checks := checks s @ map (\<lambda>fb. Some (uuid fb)) fbs\<rparr>"
  unfolding startAll_def
  by (induction fbs arbitrary: s) (simp_all add: checkOverflow_def setAttribute_def)


lemma fire_keeps_single:
  assumes "length (suspended sys) \<le> 1" "suspended sys \<noteq> [] \<longrightarrow> is_checking (tstate sys)"
  shows "length (suspended (fire fbs order sys ev)) \<le> 1 \<and>
         (suspended (fire fbs order sys ev) \<noteq> [] \<longrightarrow> is_checking (tstate (fire fbs order sys ev)))"
proof (cases ev)
  case Notify
  then show ?thesis using assms
    by (auto simp: enter_def checkOverflow_def removeAttribute_def)
next
  case (Resume j m)
  show ?thesis
  proof (cases "j < length (suspended sys)")
    case False
    then show ?thesis using assms Resume by simp
  next
    case True
    with assms have j: "j = 0" and l: "length (suspended sys) = 1" and c: "is_checking (tstate sys)" by auto
    then obtain k where k: "suspended sys = [k]" by (cases "suspended sys") auto
    show ?thesis using Resume j k c
      by (cases k) (auto simp: checkOverflow_def setAttribute_def startAll_eq split: if_splits list.splits prod.splits)
  qed
qed

lemma run_keeps_single:
  "length (suspended (foldl (fire fbs order) idle evs)) \<le> 1 \<and>
   (suspended (foldl (fire fbs order) idle evs) \<noteq> [] \<longrightarrow> is_checking (tstate (foldl (fire fbs order) idle evs)))"
proof (induction evs rule: rev_induct)
  case Nil
  then show ?case by (simp add: idle_def)
next
  case (snoc ev evs)
  then show ?case using fire_keeps_single[of "foldl (fire fbs order) idle evs" fbs order ev] by simp
qed

text \<open>
  The callback run to its end is the coroutine entered and continued until it returns.
\<close>

lemma finish_tryLoop:
  "drop i fbs = fb # rest \<Longrightarrow>
   finish fbs ''normal'' m (checkOverflow (setAttribute (uuid fb) s), Some (AwaitTry i))
     = tryLoop m (length fbs) i (fb # rest) s"
proof (induction rest arbitrary: i fb s)
  case Nil
  then have "length (drop i fbs) = 1" by simp
  then have "length fbs = Suc i" by simp
  then show ?case by (simp add: Let_def)
next
  case (Cons fb' rest')
  have "drop (Suc i) fbs = tl (drop i fbs)" by (simp add: drop_Suc tl_drop)
  with Cons.prems have d: "drop (Suc i) fbs = fb' # rest'" by simp
  from Cons.prems have "length (drop i fbs) = Suc (Suc (length rest'))" by simp
  then have nl: "int i \<noteq> int (length fbs) - 1" by simp
  from Cons.IH [OF d] show ?case
    using d nl by (simp add: Let_def)
qed

lemma onUpdate_finish: "onUpdate fbs order m s = finish fbs order m (enter s)"
proof (cases "is_checking s")
  case True
  then show ?thesis by (simp add: onUpdate_def enter_def)
next
  case False
  show ?thesis
  proof (cases fbs)
    case Nil
    with False show ?thesis by (simp add: onUpdate_def enter_def Let_def)
  next
    case (Cons fb rest)
    then have "drop 0 fbs = fb # rest" by simp
    from finish_tryLoop [OF this, of m] Cons False show ?thesis
      by (simp add: onUpdate_def enter_def Let_def)
  qed
qed

text \<open>
  C5. Under \<open>order = normal\<close>, when the callback starts (no evaluation in flight) and
  the default layout overflows: if the try block with index \<open>k\<close> is the first one whose
  check shows no overflowing edge, the callback ends with the marker attribute set to
  the identifier of that block, and the checks made are that of the default layout and
  those of the blocks up to \<open>k\<close>, in source order, and no other; if every try block
  overflows, the callback ends with the attribute removed, after the checks of the
  default layout and of every block.
\<close>

theorem normal_order_first_fit:
  assumes "\<not> is_checking s" and "\<not> noOverflow (m 0)"
  shows "(k < length fbs \<and> noOverflow (m (Suc k)) \<and> (\<forall>j<k. \<not> noOverflow (m (Suc j))) \<longrightarrow>
            onUpdate fbs ''normal'' m s =
              s\<lparr>is_checking := False, attr := Some (uuid (fbs ! k)),
                checks := checks s @ None # map (\<lambda>fb. Some (uuid fb)) (take (Suc k) fbs)\<rparr>)
       \<and> (fbs \<noteq> [] \<and> (\<forall>j<length fbs. \<not> noOverflow (m (Suc j))) \<longrightarrow>
            onUpdate fbs ''normal'' m s =
              s\<lparr>is_checking := False, attr := None,
                checks := checks s @ None # map (\<lambda>fb. Some (uuid fb)) fbs\<rparr>)"
proof -
  let ?s1 = "checkOverflow (removeAttribute (s\<lparr>is_checking := True\<rparr>))"
  have start: "onUpdate fbs ''normal'' m s = tryLoop m (length fbs) 0 fbs ?s1"
    using assms by (simp add: onUpdate_def)
  have fit: "onUpdate fbs ''normal'' m s =
              s\<lparr>is_checking := False, attr := Some (uuid (fbs ! k)),
                checks := checks s @ None # map (\<lambda>fb. Some (uuid fb)) (take (Suc k) fbs)\<rparr>"
    if "k < length fbs" "noOverflow (m (Suc k))" "\<forall>j<k. \<not> noOverflow (m (Suc j))"
    using that start tryLoop_fit [of k fbs m 0 "length fbs" ?s1]
    by (simp add: checkOverflow_def removeAttribute_def)
  have none: "onUpdate fbs ''normal'' m s =
              s\<lparr>is_checking := False, attr := None,
                checks := checks s @ None # map (\<lambda>fb. Some (uuid fb)) fbs\<rparr>"
    if "fbs \<noteq> []" "\<forall>j<length fbs. \<not> noOverflow (m (Suc j))"
    using that start tryLoop_none [of fbs m 0 "length fbs" ?s1]
    by (simp add: checkOverflow_def removeAttribute_def)
  from fit none show ?thesis by blast
qed

theorem normal_order_first_fit_witness:
  "onUpdate example_fallbacks ''normal'' example_fit example_idle =
     \<lparr>is_checking = False, attr = Some ''try-b'', checks = [None, Some ''try-a'', Some ''try-b'']\<rparr>
   \<and> onUpdate example_fallbacks ''normal'' example_tight example_idle =
     \<lparr>is_checking = False, attr = None,
      checks = [None, Some ''try-a'', Some ''try-b'', Some ''try-c'']\<rparr>"
proof -
  have "onUpdate example_fallbacks ''normal'' example_fit example_idle =
     \<lparr>is_checking = False, attr = Some ''try-b'', checks = [None, Some ''try-a'', Some ''try-b'']\<rparr>"
    using normal_order_first_fit [of example_idle example_fit 1 example_fallbacks]
    by (simp add: example_idle_def example_fit_def example_fallbacks_def noOverflow_def
        overflowing_def)
  moreover
  have "onUpdate example_fallbacks ''normal'' example_tight example_idle =
     \<lparr>is_checking = False, attr = None,
      checks = [None, Some ''try-a'', Some ''try-b'', Some ''try-c'']\<rparr>"
    using normal_order_first_fit [of example_idle example_tight 0 example_fallbacks]
    by (simp add: example_idle_def example_tight_def example_fallbacks_def noOverflow_def
        overflowing_def)
  ultimately show ?thesis by simp
qed



text \<open>
  C9. Each target has its own \<open>checking\<close> flag. A layout-change notification that
  arrives while the flag is set changes nothing: no invocation is added to the suspended
  ones, no check of overflow is made, and the callback run on its own returns the state
  as it is. After any sequence of notifications and continuations from the idle target,
  at most one invocation of the callback is in flight, and the flag is set as long as
  one is.
\<close>

theorem busy_notification_dropped:
  "(is_checking (tstate sys) \<longrightarrow> fire fbs order sys Notify = sys)
   \<and> (is_checking s \<longrightarrow> onUpdate fbs order m s = s)
   \<and> length (suspended (foldl (fire fbs order) idle events)) \<le> 1
   \<and> (suspended (foldl (fire fbs order) idle events) \<noteq> [] \<longrightarrow>
        is_checking (tstate (foldl (fire fbs order) idle events)))"
  using run_keeps_single [of fbs order events]
  by (simp add: enter_def onUpdate_def)

theorem busy_notification_dropped_witness:
  "is_checking (tstate (foldl (fire example_fallbacks ''normal'') idle [Notify, Resume 0 example_fit]))
   \<and> fire example_fallbacks ''normal''
        (foldl (fire example_fallbacks ''normal'') idle [Notify, Resume 0 example_fit]) Notify
      = foldl (fire example_fallbacks ''normal'') idle [Notify, Resume 0 example_fit]
   \<and> suspended (foldl (fire example_fallbacks ''normal'') idle [Notify, Resume 0 example_fit, Notify])
      = [AwaitTry 0]
   \<and> checks (tstate (foldl (fire example_fallbacks ''normal'') idle [Notify, Resume 0 example_fit, Notify]))
      = [None, Some ''try-a'']"
proof -
  let ?sys = "foldl (fire example_fallbacks ''normal'') idle [Notify, Resume 0 example_fit]"
  have sys: "?sys = \<lparr>tstate = \<lparr>is_checking = True, attr = Some ''try-a'', checks = [None, Some ''try-a'']\<rparr>,
                     suspended = [AwaitTry 0]\<rparr>"
    by (simp add: idle_def enter_def checkOverflow_def removeAttribute_def setAttribute_def
        example_fallbacks_def example_fit_def noOverflow_def overflowing_def)
  have c: "is_checking (tstate ?sys)" by (simp only: sys) simp
  have "fire example_fallbacks ''normal'' ?sys Notify = ?sys"
    using busy_notification_dropped [of ?sys example_fallbacks "''normal''"] c by blast
  then show ?thesis using c sys by simp
qed


section \<open>Properties of the rewrite pass\<close>

lemmas parse_unfold = parseCSS_def pass1_def pass2_def visit1_def visit2_def getAST_def
  recordAnchorName_def getAnchorNameData_def getAnchorFunctionData_def
  getPositionFallbackDeclaration_def getPositionFallbackRules_def tryAtRule_def tryDeclaration_def
  parseAnchorFn_def parseChild_def placeholder_def reparseRaw_def entriesOf_def truthy_def
  isInset_def freshRegistries_def bindFallbacks_def bindTryBlock_def storeDeclarations_def
  storeDeclaration_def getAnchorEl_def validatedForPositioning_def Let_def

lemmas example_unfold = example_lib_def parseInt_def isSpace_def isDigit_def digitVal_def
  enumerate_eq_zip

subsection \<open>The registries across calls\<close>

lemma map_of_assign: "map_of (assign k v kvs) k' = (if k' = k then Some v else map_of kvs k')"
  by (induction kvs) auto

lemma keys_assign: "fst ` set (assign k v kvs) = insert k (fst ` set kvs)"
  by (induction kvs) force+

lemma keeps_refl: "keeps r r"
  by (simp add: keeps_def)

lemma keeps_trans: "keeps r r' \<Longrightarrow> keeps r' r'' \<Longrightarrow> keeps r r''"
  unfolding keeps_def
  by (metis (no_types, lifting) append.assoc order_trans)

lemma keeps_recordAnchorName: "keeps r (recordAnchorName node rule r)"
  by (auto simp: keeps_def recordAnchorName_def map_of_assign split: option.splits prod.splits)

lemma keeps_getAnchorFunctionData:
  "getAnchorFunctionData l node d rule r = (a, b, r') \<Longrightarrow> keeps r r'"
  by (auto simp: keeps_def getAnchorFunctionData_def keys_assign Let_def split: option.splits if_splits)
    force+

lemma tryDeclaration_mono: "n \<le> snd (tryDeclaration l (tb, n) child)"
  by (auto simp: tryDeclaration_def split: node.splits)

lemma tryDeclarations_mono: "n \<le> snd (foldl (tryDeclaration l) (tb, n) cs)"
proof (induction cs arbitrary: tb n)
  case Nil
  then show ?case by simp
next
  case (Cons c cs)
  obtain tb' n' where s: "tryDeclaration l (tb, n) c = (tb', n')" by (cases "tryDeclaration l (tb, n) c")
  with tryDeclaration_mono [of n l tb c] have "n \<le> n'" by simp
  with Cons.IH [where tb=tb' and n=n'] s show ?case by simp
qed

lemma tryAtRule_mono: "n \<le> snd (tryAtRule l (tbs, n) atRule)"
  using tryDeclarations_mono
  by (auto simp: tryAtRule_def split: node.splits option.splits prod.splits) (metis snd_conv)

lemma tryAtRules_mono: "n \<le> snd (foldl (tryAtRule l) (tbs, n) cs)"
proof (induction cs arbitrary: tbs n)
  case Nil
  then show ?case by simp
next
  case (Cons c cs)
  obtain tbs' n' where s: "tryAtRule l (tbs, n) c = (tbs', n')" by (cases "tryAtRule l (tbs, n) c")
  with tryAtRule_mono [of n l tbs c] have "n \<le> n'" by simp
  with Cons.IH [where tbs=tbs' and n=n'] s show ?case by simp
qed

lemma getPositionFallbackRules_mono: "n \<le> snd (getPositionFallbackRules l node n)"
  using tryAtRules_mono
  by (auto simp: getPositionFallbackRules_def split: node.splits option.splits prod.splits) (metis snd_conv)

lemma keeps_visit1: "visit1 l rule d node s = (x, s') \<Longrightarrow> keeps (reg s) (reg s')"
proof -
  assume v: "visit1 l rule d node s = (x, s')"
  obtain a b r2 where g: "getAnchorFunctionData l node d rule (recordAnchorName node rule (reg s)) = (a, b, r2)"
    by (cases "getAnchorFunctionData l node d rule (recordAnchorName node rule (reg s))") auto
  obtain f n where p: "getPositionFallbackRules l node (uuidCount r2) = (f, n)"
    by (cases "getPositionFallbackRules l node (uuidCount r2)")
  from v g p have r: "reg s' = r2\<lparr>uuidCount := n\<rparr>"
    by (auto simp: visit1_def Let_def)
  from p getPositionFallbackRules_mono [of "uuidCount r2" l node] have "uuidCount r2 \<le> n" by simp
  then have "keeps r2 (r2\<lparr>uuidCount := n\<rparr>)" by (simp add: keeps_def)
  with keeps_trans [OF keeps_recordAnchorName keeps_getAnchorFunctionData [OF g]] r
  show ?thesis using keeps_trans by metis
qed


lemma keeps_walk1:
  "walk1 l rule d node s = (node', s') \<Longrightarrow> keeps (reg s) (reg s')"
  "walk1_list l rule d cs s = (cs', s') \<Longrightarrow> keeps (reg s) (reg s')"
proof (induction l rule d node s and l rule d cs s arbitrary: node' s' and cs' s'
    rule: walk1_walk1_list.induct)
  case (1 l rule dc node s)
  obtain x s1 where v: "visit1 l rule dc node s = (x, s1)"
    by (cases "visit1 l rule dc node s")
  note k1 = keeps_visit1 [OF v]
  show ?case
  proof (cases x)
    case (Some n)
    with v "1.prems" k1 show ?thesis by simp
  next
    case None
    have "keeps (reg s1) (reg s')"
    proof (cases node)
      case (StyleSheet cs)
      with "1.prems" v None obtain cs' where "walk1_list l rule dc cs s1 = (cs', s')"
        by (auto split: prod.splits)
      with "1.IH"(1) [OF v [symmetric] None StyleSheet] show ?thesis by simp
    next
      case (Rule prelude cs)
      with "1.prems" v None obtain cs' where "walk1_list l (Some prelude) dc cs s1 = (cs', s')"
        by (auto split: prod.splits)
      with "1.IH"(2) [OF v [symmetric] None Rule] show ?thesis by simp
    next
      case (Atrule name prelude block)
      show ?thesis
      proof (cases block)
        case None
        with "1.prems" v \<open>x = None\<close> Atrule show ?thesis by (simp add: keeps_refl)
      next
        case (Some cs)
        with "1.prems" v \<open>x = None\<close> Atrule obtain cs' where "walk1_list l rule dc cs s1 = (cs', s')"
          by (auto split: prod.splits)
        with "1.IH"(3) [OF v [symmetric] \<open>x = None\<close> Atrule Some] show ?thesis by simp
      qed
    next
      case (Declaration property cs)
      with "1.prems" v None obtain cs' where "walk1_list l rule (Some property) cs s1 = (cs', s')"
        by (auto split: prod.splits)
      with "1.IH"(4) [OF v [symmetric] None Declaration] show ?thesis by simp
    next
      case (Function name cs)
      with "1.prems" v None obtain cs' where "walk1_list l rule dc cs s1 = (cs', s')"
        by (auto split: prod.splits)
      with "1.IH"(5) [OF v [symmetric] None Function] show ?thesis by simp
    qed (use "1.prems" v None in \<open>simp_all add: keeps_refl\<close>)
    with k1 show ?thesis by (rule keeps_trans)
  qed
next
  case (2 l rule dc s)
  then show ?case by (simp add: keeps_refl)
next
  case (3 l rule dc c cs s)
  obtain c' s1 where w: "walk1 l rule dc c s = (c', s1)"
    by (cases "walk1 l rule dc c s")
  obtain cs1 s2 where ws: "walk1_list l rule dc cs s1 = (cs1, s2)"
    by (cases "walk1_list l rule dc cs s1")
  from "3.prems" w ws have "s' = s2" by simp
  with "3.IH"(1) [OF w] "3.IH"(2) [OF w [symmetric] ws] show ?case
    using keeps_trans by blast
qed


lemma reg_visit2: "reg (snd (visit2 rule d node s)) = reg s"
  by (simp add: visit2_def Let_def split: option.splits)

lemma reg_walk2:
  "reg (snd (walk2 rule d node s)) = reg s"
  "reg (snd (walk2_list rule d cs s)) = reg s"
proof (induction rule d node s and rule d cs s rule: walk2_walk2_list.induct)
  case (1 rule dc node s)
  obtain x s1 where v: "visit2 rule dc node s = (x, s1)"
    by (cases "visit2 rule dc node s")
  with reg_visit2 [of rule dc node s] have r: "reg s1 = reg s" by simp
  show ?case
  proof (cases node)
    case (StyleSheet cs)
    from "1.IH"(1) [OF v [symmetric] StyleSheet] show ?thesis
      using v r StyleSheet by (auto split: prod.splits)
  next
    case (Rule prelude cs)
    from "1.IH"(2) [OF v [symmetric] Rule] show ?thesis
      using v r Rule by (auto split: prod.splits)
  next
    case (Atrule name prelude block)
    show ?thesis
    proof (cases block)
      case None
      then show ?thesis using v r Atrule by simp
    next
      case (Some cs)
      from "1.IH"(3) [OF v [symmetric] Atrule Some] show ?thesis
        using v r Atrule Some by (auto split: prod.splits)
    qed
  next
    case (Declaration property cs)
    from "1.IH"(4) [OF v [symmetric] Declaration] show ?thesis
      using v r Declaration by (auto split: prod.splits)
  next
    case (Function name cs)
    from "1.IH"(5) [OF v [symmetric] Function] show ?thesis
      using v r Function by (auto split: prod.splits)
  qed (use v r in simp_all)
next
  case (2 rule dc s)
  then show ?case by simp
next
  case (3 rule dc c cs s)
  obtain c' s1 where w: "walk2 rule dc c s = (c', s1)" by (cases "walk2 rule dc c s")
  obtain cs1 s2 where ws: "walk2_list rule dc cs s1 = (cs1, s2)" by (cases "walk2_list rule dc cs s1")
  from "3.IH"(1) w have "reg s1 = reg s" by simp
  moreover from "3.IH"(2) [OF w [symmetric]] ws have "reg s2 = reg s1" by simp
  ultimately show ?case using w ws by (simp del: walk2.simps)
qed

lemma keeps_pass1: "keeps (reg s) (reg (snd (pass1 l (acc, s) styleObj)))"
proof -
  obtain ast s' where w: "walk1 l None None (getAST (css styleObj)) (s\<lparr>changed_local := False\<rparr>) = (ast, s')"
    by (cases "walk1 l None None (getAST (css styleObj)) (s\<lparr>changed_local := False\<rparr>)")
  from keeps_walk1(1) [OF w] show ?thesis using w by (simp add: pass1_def del: walk1.simps)
qed

lemma keeps_pass1_all: "keeps (reg s) (reg (snd (foldl (pass1 l) (acc, s) sds)))"
proof (induction sds arbitrary: acc s)
  case Nil
  then show ?case by (simp add: keeps_refl)
next
  case (Cons sd sds)
  obtain acc' s' where p: "pass1 l (acc, s) sd = (acc', s')" by (cases "pass1 l (acc, s) sd")
  with keeps_pass1 [of s l acc sd] have "keeps (reg s) (reg s')" by simp
  with Cons.IH [where acc=acc' and s=s'] p show ?case using keeps_trans by fastforce
qed

lemma reg_pass2: "reg (snd (pass2 (acc, s) styleObj)) = reg s"
proof -
  obtain ast s' where w: "walk2 None None (getAST (css styleObj)) (s\<lparr>changed_local := False\<rparr>) = (ast, s')"
    by (cases "walk2 None None (getAST (css styleObj)) (s\<lparr>changed_local := False\<rparr>)")
  with reg_walk2(1) [of None None "getAST (css styleObj)" "s\<lparr>changed_local := False\<rparr>"]
  have "reg s' = reg s" by simp
  with w show ?thesis by (simp add: pass2_def del: walk2.simps)
qed

lemma reg_pass2_all: "reg (snd (foldl pass2 (acc, s) sds)) = reg s"
proof (induction sds arbitrary: acc s)
  case Nil
  then show ?case by simp
next
  case (Cons sd sds)
  obtain acc' s' where p: "pass2 (acc, s) sd = (acc', s')" by (cases "pass2 (acc, s) sd")
  with reg_pass2 [of acc s sd] have "reg s' = reg s" by simp
  with Cons.IH [where acc=acc' and s=s'] p show ?case by simp
qed

lemma keeps_parseCSS: "keeps r (snd (snd (parseCSS e l styleData r)))"
proof -
  let ?s0 = "\<lparr>reg = r, anchorFunctions = [], fallbackNames = [], fallbacks = [], changed_local = False\<rparr>"
  obtain sd1 s1 where p1: "foldl (pass1 l) ([], ?s0) styleData = (sd1, s1)"
    by (cases "foldl (pass1 l) ([], ?s0) styleData")
  with keeps_pass1_all [of ?s0 l "[]" styleData] have k: "keeps r (reg s1)" by simp
  obtain sd2 s2 where p2: "foldl pass2 ([], s1) sd1 = (sd2, s2)"
    by (cases "foldl pass2 ([], s1) sd1")
  with reg_pass2_all [of "[]" s1 sd1] have "reg s2 = reg s1" by simp
  with k p1 p2 show ?thesis
    by (simp add: parseCSS_def Let_def split: prod.splits)
qed

text \<open>
  C1 (as amended). The anchor-name registry and the table of custom-property assignments
  are module-level state that \<open>parseCSS\<close> never clears: a call starts from the
  registries as the call before left them, and when it returns every anchor name that
  was registered is still registered, with the selectors it had (in their order, before
  any added by this call), and every custom property that had an assignment still has
  one.
\<close>

theorem registries_persist:
  "parseCSS e l styleData r = (validPositions, styleData', r') \<Longrightarrow>
     (\<forall>name sels. map_of (anchorNames r) name = Some sels \<longrightarrow>
         (\<exists>more. map_of (anchorNames r') name = Some (sels @ more)))
     \<and> fst ` set (customPropAssignments r) \<subseteq> fst ` set (customPropAssignments r')"
  using keeps_parseCSS [of r e l styleData] by (simp add: keeps_def)

theorem registries_persist_witness:
  "map_of (anchorNames registriesAfterA) ''--x'' = Some [''#a'']
   \<and> (\<exists>more. map_of (anchorNames (snd (snd (parseCSS example_env example_lib
          [\<lparr>css = sheetE, changed = False\<rparr>] registriesAfterA)))) ''--x'' = Some ([''#a''] @ more))
   \<and> ''--c'' \<in> fst ` set (customPropAssignments (snd (snd (parseCSS example_env example_lib
          [\<lparr>css = sheetE, changed = False\<rparr>] registriesAfterA))))"
proof -
  obtain m sd r' where p: "parseCSS example_env example_lib
      [\<lparr>css = sheetE, changed = False\<rparr>] registriesAfterA = (m, sd, r')"
    by (cases "parseCSS example_env example_lib [\<lparr>css = sheetE, changed = False\<rparr>] registriesAfterA")
  have a: "map_of (anchorNames registriesAfterA) ''--x'' = Some [''#a'']"
    by (simp add: registriesAfterA_def)
  have c: "''--c'' \<in> fst ` set (customPropAssignments registriesAfterA)"
    by (simp add: registriesAfterA_def)
  from registries_persist [OF p] a
  have "\<exists>more. map_of (anchorNames r') ''--x'' = Some ([''#a''] @ more)" by blast
  moreover from registries_persist [OF p] c
  have "''--c'' \<in> fst ` set (customPropAssignments r')" by blast
  ultimately show ?thesis using a p by simp
qed

text \<open>
  C1 as stated fails: after a call on \<open>sheetA\<close>, a call on the unrelated \<open>sheetB\<close>
  finds the assignment of \<open>--c\<close> and the anchor name \<open>--x\<close> of the first call: it
  rewrites \<open>sheetB\<close> and returns a reference bound to the element of \<open>#a\<close>, where
  the same call with fresh registries changes nothing and returns an empty rule model.
\<close>

theorem registries_leak_counterexample:
  "parseCSS example_env example_lib [\<lparr>css = sheetA, changed = False\<rparr>] freshRegistries
     = ([], [\<lparr>css = sheetA, changed = False\<rparr>], registriesAfterA)
   \<and> parseCSS example_env example_lib [\<lparr>css = sheetB, changed = False\<rparr>] registriesAfterA
     = ([(''#t'', \<lparr>declarations = Some [(''top'', \<lparr>anchorEl = Some 1, anchorName = Some ''--x'',
             anchorEdge = Some (SideNumber 50), fallbackValue = ''0px'',
             customPropName = None, key = ''--anchor-u-top''\<rparr>)], pos_fallbacks = None\<rparr>)],
        [\<lparr>css = StyleSheet [Rule ''#t'' [Declaration ''top'' [Function ''var'' [Identifier ''--anchor-u-top'']]]],
          changed = True\<rparr>],
        registriesAfterA)
   \<and> parseCSS example_env example_lib [\<lparr>css = sheetB, changed = False\<rparr>] freshRegistries
     = ([], [\<lparr>css = sheetB, changed = False\<rparr>], freshRegistries)"
  by (simp add: parse_unfold sheetA_def sheetB_def registriesAfterA_def example_unfold)

subsection \<open>Keys of the rule model\<close>

text \<open>
  C3. The keys of the rule model are not all different: for the style sheet
  \<^verbatim>\<open>#a { --c: anchor(--x 50%); top: var(--c) } #b { top: var(--c) }\<close>
  the second walk gives the reference of \<open>top\<close> on \<open>#a\<close> and the reference of \<open>top\<close> on
  \<open>#b\<close> the same key, the key of the assignment of \<open>--c\<close> followed by \<open>-top\<close>.
\<close>

theorem shared_clone_key:
  "fst (parseCSS example_env example_lib [\<lparr>css = sheetC, changed = False\<rparr>] freshRegistries)
  = [(''#a'', \<lparr>declarations = Some [(''top'', \<lparr>anchorEl = None, anchorName = Some ''--x'',
             anchorEdge = Some (SideNumber 50), fallbackValue = ''0px'',
             customPropName = None, key = ''--anchor-u-top''\<rparr>)], pos_fallbacks = None\<rparr>),
     (''#b'', \<lparr>declarations = Some [(''top'', \<lparr>anchorEl = None, anchorName = Some ''--x'',
             anchorEdge = Some (SideNumber 50), fallbackValue = ''0px'',
             customPropName = None, key = ''--anchor-u-top''\<rparr>)], pos_fallbacks = None\<rparr>)]"
  by (simp add: parse_unfold sheetC_def example_unfold)


subsection \<open>The pass on rewritten text\<close>





































end
